theory Spec2Isabelle
  imports Complex_Main
begin

section \<open>Python values used by the linguistic analysis engine\<close>

text \<open>
  Exceptions are values. \<open>ValidationError\<close> is the application's own exception
  (\<^verbatim>\<open>app.core.shared.exceptions\<close>); \<open>ZeroDivisionError\<close> and \<open>ValueError\<close> are the
  built-in exceptions raised by float division by zero and by \<^verbatim>\<open>math.log\<close> outside its
  domain.
\<close>

datatype error = ValidationError | ZeroDivisionError | ValueError

text \<open>
  A Python \<^verbatim>\<open>str\<close> is a sequence of Unicode code points; a code point is a natural
  number. Python floats are modelled by the real numbers (exact arithmetic, no rounding), Python
  integers by \<open>int\<close>.
\<close>

type_synonym ustr = "nat list"

definition str :: "string \<Rightarrow> ustr" where
  "str s = map of_char s"

text \<open>\<^verbatim>\<open>str.isspace\<close> for one code point: the code points Python treats as whitespace.\<close>

definition isspace :: "nat \<Rightarrow> bool" where
  "isspace c \<longleftrightarrow>
     (9 \<le> c \<and> c \<le> 13) \<or> (28 \<le> c \<and> c \<le> 32) \<or> c = 133 \<or> c = 160 \<or> c = 5760 \<or>
     (8192 \<le> c \<and> c \<le> 8202) \<or> c = 8232 \<or> c = 8233 \<or> c = 8239 \<or> c = 8287 \<or> c = 12288"

text \<open>
  \<^verbatim>\<open>str.lower\<close>, code point by code point, on Basic Latin and the Latin-1 Supplement
  (the alphabets of both languages of the dictionary); every other code point is left as it is.
\<close>

definition lower_cp :: "nat \<Rightarrow> nat" where
  "lower_cp c =
     (if (65 \<le> c \<and> c \<le> 90) \<or> (192 \<le> c \<and> c \<le> 222 \<and> c \<noteq> 215) then c + 32 else c)"

definition lower :: "ustr \<Rightarrow> ustr" where
  "lower s = map lower_cp s"

definition strip :: "ustr \<Rightarrow> ustr" where
  "strip s = rev (dropWhile isspace (rev (dropWhile isspace s)))"

text \<open>\<^verbatim>\<open>s.split()\<close>: the maximal runs of non-whitespace, in order.\<close>

fun split_acc :: "ustr \<Rightarrow> ustr \<Rightarrow> ustr list" where
  "split_acc cur [] = (if cur = [] then [] else [cur])"
| "split_acc cur (c # cs) =
     (if isspace c then (if cur = [] then split_acc [] cs else cur # split_acc [] cs)
      else split_acc (cur @ [c]) cs)"

definition split :: "ustr \<Rightarrow> ustr list" where
  "split s = split_acc [] s"

text \<open>\<^verbatim>\<open>s.startswith(p)\<close> and \<^verbatim>\<open>s.endswith(p)\<close>.\<close>

definition startswith :: "ustr \<Rightarrow> ustr \<Rightarrow> bool" where
  "startswith s p \<longleftrightarrow> take (length p) s = p"

definition endswith :: "ustr \<Rightarrow> ustr \<Rightarrow> bool" where
  "endswith s p \<longleftrightarrow> length p \<le> length s \<and> drop (length s - length p) s = p"

text \<open>
  \<^verbatim>\<open>s.count(sub)\<close> and \<^verbatim>\<open>s.replace(sub, new)\<close> for a non-empty \<open>sub\<close>: the
  non-overlapping occurrences, found from left to right. The counter \<open>k\<close> is the number of
  characters of the current occurrence still to be skipped.
\<close>

fun count_from :: "ustr \<Rightarrow> nat \<Rightarrow> ustr \<Rightarrow> nat" where
  "count_from sub k [] = 0"
| "count_from sub k (c # cs) =
     (if 0 < k then count_from sub (k - 1) cs
      else if startswith (c # cs) sub then 1 + count_from sub (length sub - 1) cs
      else count_from sub 0 cs)"

definition count_sub :: "ustr \<Rightarrow> ustr \<Rightarrow> nat" where
  "count_sub s sub = count_from sub 0 s"

fun replace_from :: "ustr \<Rightarrow> ustr \<Rightarrow> nat \<Rightarrow> ustr \<Rightarrow> ustr" where
  "replace_from sub new k [] = []"
| "replace_from sub new k (c # cs) =
     (if 0 < k then replace_from sub new (k - 1) cs
      else if startswith (c # cs) sub then new @ replace_from sub new (length sub - 1) cs
      else c # replace_from sub new 0 cs)"

definition replace :: "ustr \<Rightarrow> ustr \<Rightarrow> ustr \<Rightarrow> ustr" where
  "replace s sub new = replace_from sub new 0 s"

text \<open>\<^verbatim>\<open>sub in s\<close> for strings: \<open>sub\<close> starts at some position of \<open>s\<close>.\<close>

fun contains :: "ustr \<Rightarrow> ustr \<Rightarrow> bool" where
  "contains [] sub = startswith [] sub"
| "contains (c # cs) sub = (startswith (c # cs) sub \<or> contains cs sub)"

text \<open>A function that may raise, applied to each element of a list in order.\<close>

fun bind :: "error + 'a \<Rightarrow> ('a \<Rightarrow> error + 'b) \<Rightarrow> error + 'b" where
  "bind (Inl e) f = Inl e"
| "bind (Inr x) f = f x"

section \<open>SimilarityScore (value object)\<close>

record SimilarityScore =
  phonological_similarity :: real
  morphological_similarity :: real
  semantic_similarity :: real
  overall_similarity :: real

text \<open>
  The dataclass constructor followed by \<^verbatim>\<open>__post_init__\<close>: the range check on each of
  the four scores in order, then the consistency check.
\<close>

definition SimilarityScore_init :: "real \<Rightarrow> real \<Rightarrow> real \<Rightarrow> real \<Rightarrow> error + SimilarityScore" where
  "SimilarityScore_init p m s ov =
     (if \<exists>score \<in> set [p, m, s, ov]. \<not> (0 \<le> score \<and> score \<le> 1) then Inl ValidationError
      else
        let expected_overall = p * 0.4 + m * 0.3 + s * 0.3 in
        if \<bar>ov - expected_overall\<bar> > 0.1 then Inl ValidationError
        else Inr \<lparr>phonological_similarity = p, morphological_similarity = m,
                  semantic_similarity = s, overall_similarity = ov\<rparr>)"

definition SimilarityScore_create :: "real \<Rightarrow> real \<Rightarrow> real \<Rightarrow> error + SimilarityScore" where
  "SimilarityScore_create phonological morphological semantic =
     (let overall = phonological * 0.4 + morphological * 0.3 + semantic * 0.3
      in SimilarityScore_init phonological morphological semantic overall)"

definition is_high_similarity :: "SimilarityScore \<Rightarrow> bool" where
  "is_high_similarity sc \<longleftrightarrow> overall_similarity sc \<ge> 0.7"

definition is_moderate_similarity :: "SimilarityScore \<Rightarrow> bool" where
  "is_moderate_similarity sc \<longleftrightarrow> 0.4 \<le> overall_similarity sc \<and> overall_similarity sc < 0.7"

definition get_similarity_level :: "SimilarityScore \<Rightarrow> ustr" where
  "get_similarity_level sc =
     (if is_high_similarity sc then str ''high''
      else if is_moderate_similarity sc then str ''moderate''
      else str ''low'')"

section \<open>Word entity\<close>

datatype VocalType = ORAL | NASAL | LARYNGEALIZED

text \<open>
  The fields of the entities that the engine reads. \<open>info_syllable_pattern\<close> is the field
  \<^verbatim>\<open>syllable_pattern\<close> of \<^verbatim>\<open>PhonologicalInfo\<close>; the name is taken by
  \<^verbatim>\<open>PhonologicalFeatures\<close> below.
\<close>

record PhonologicalInfo =
  ipa_transcription :: ustr
  has_nasal_vowels :: bool
  has_laryngealized_vowels :: bool
  vocal_types_present :: "VocalType list"
  number_of_syllables :: int
  info_syllable_pattern :: "ustr option"

record MorphologicalInfo =
  root_word :: ustr
  is_compound :: bool
  compound_components :: "ustr list"
  applied_suffixes :: "ustr list"

record Word =
  shuar_text :: ustr
  spanish_translation :: ustr
  phonological_info :: "PhonologicalInfo option"
  morphological_info :: "MorphologicalInfo option"
  frequency_score :: int
  confidence_level :: real
  is_verified :: bool

section \<open>PhonologicalAnalysisService\<close>

record PhonologicalFeatures =
  vocal_types :: "VocalType set"
  has_digraphs :: bool
  digraphs_present :: "ustr list"
  consonant_clusters :: "ustr list"
  syllable_count :: int
  syllable_pattern :: ustr
  phonological_complexity :: real

definition ORAL_VOWELS :: "nat set" where
  "ORAL_VOWELS = set (str ''aeiu'')"

definition NASAL_VOWELS :: "nat set" where
  "NASAL_VOWELS = {225, 233, 237, 250}"

definition LARYNGEALIZED_VOWELS :: "nat set" where
  "LARYNGEALIZED_VOWELS = {228, 235, 239, 252}"

definition ALL_VOWELS :: "nat set" where
  "ALL_VOWELS = ORAL_VOWELS \<union> NASAL_VOWELS \<union> LARYNGEALIZED_VOWELS"

definition CONSONANTS :: "nat set" where
  "CONSONANTS = set (str ''ptksjmnrwy'')"

definition DIGRAPHS :: "ustr set" where
  "DIGRAPHS = {str ''ch'', str ''sh'', str ''ts''}"

text \<open>
  \<^verbatim>\<open>IPA_MAPPINGS\<close>: the nasal vowels map to U+00E3, U+1EBD, U+0129, U+0169, the
  laryngealized ones to the vowel followed by U+0294, \<^verbatim>\<open>r\<close> to U+027E,
  \<^verbatim>\<open>ch\<close> to \<^verbatim>\<open>t\<close> U+0283 and \<^verbatim>\<open>sh\<close> to U+0283.
\<close>

definition IPA_MAPPINGS :: "ustr \<rightharpoonup> ustr" where
  "IPA_MAPPINGS = map_of
     [(str ''a'', str ''a''), (str ''e'', str ''e''), (str ''i'', str ''i''), (str ''u'', str ''u''),
      ([225], [227]), ([233], [7869]), ([237], [297]), ([250], [361]),
      ([228], [97, 660]), ([235], [101, 660]), ([239], [105, 660]), ([252], [117, 660]),
      (str ''p'', str ''p''), (str ''t'', str ''t''), (str ''k'', str ''k''), (str ''s'', str ''s''),
      (str ''j'', str ''h''), (str ''m'', str ''m''), (str ''n'', str ''n''), (str ''r'', [638]),
      (str ''w'', str ''w''), (str ''y'', str ''j''),
      (str ''ch'', [116, 643]), (str ''sh'', [643]), (str ''ts'', str ''ts'')]"

text \<open>\<^verbatim>\<open>IPA_MAPPINGS.get(k, k)\<close>.\<close>

definition ipa_get :: "ustr \<Rightarrow> ustr" where
  "ipa_get k = (case IPA_MAPPINGS k of Some v \<Rightarrow> v | None \<Rightarrow> k)"

text \<open>
  Several methods iterate over the set \<^verbatim>\<open>DIGRAPHS\<close>. Python does not fix the
  iteration order of a set of strings, and the order matters when digraphs overlap (as in
  \<^verbatim>\<open>tsh\<close>). The order is therefore a parameter \<open>ds\<close> of every function that depends on
  it: a list enumerating \<open>DIGRAPHS\<close>. \<open>DIGRAPHS_order\<close> is the order in which the source
  writes the set.
\<close>

definition DIGRAPHS_order :: "ustr list" where
  "DIGRAPHS_order = map str [''ch'', ''sh'', ''ts'']"

definition detect_vocal_types :: "ustr \<Rightarrow> VocalType set" where
  "detect_vocal_types word =
     foldl (\<lambda>vts c. if c \<in> ORAL_VOWELS then insert ORAL vts
                     else if c \<in> NASAL_VOWELS then insert NASAL vts
                     else if c \<in> LARYNGEALIZED_VOWELS then insert LARYNGEALIZED vts
                     else vts) {} word"

definition detect_digraphs :: "ustr list \<Rightarrow> ustr \<Rightarrow> ustr list" where
  "detect_digraphs ds word =
     foldl (\<lambda>found digraph. if contains word digraph
                             then found @ replicate (count_sub word digraph) digraph
                             else found) [] ds"

definition replace_digraphs :: "ustr list \<Rightarrow> ustr \<Rightarrow> ustr" where
  "replace_digraphs ds word = foldl (\<lambda>temp_word digraph. replace temp_word digraph (str ''X'')) word ds"

fun clusters_loop :: "ustr list \<Rightarrow> ustr \<Rightarrow> ustr \<Rightarrow> ustr list" where
  "clusters_loop clusters current_cluster [] =
     (if length current_cluster > 1 then clusters @ [current_cluster] else clusters)"
| "clusters_loop clusters current_cluster (c # cs) =
     (if c \<in> CONSONANTS \<or> [c] = str ''X'' then clusters_loop clusters (current_cluster @ [c]) cs
      else clusters_loop
             (if length current_cluster > 1 then clusters @ [current_cluster] else clusters) [] cs)"

definition detect_consonant_clusters :: "ustr list \<Rightarrow> ustr \<Rightarrow> ustr list" where
  "detect_consonant_clusters ds word = clusters_loop [] [] (replace_digraphs ds word)"

fun syllables_loop :: "int \<Rightarrow> bool \<Rightarrow> ustr \<Rightarrow> int" where
  "syllables_loop vowel_count prev_was_vowel [] = vowel_count"
| "syllables_loop vowel_count prev_was_vowel (c # cs) =
     (let is_vowel = c \<in> ALL_VOWELS
      in syllables_loop (if is_vowel \<and> \<not> prev_was_vowel then vowel_count + 1 else vowel_count)
           is_vowel cs)"

definition count_syllables :: "ustr list \<Rightarrow> ustr \<Rightarrow> int" where
  "count_syllables ds word = max 1 (syllables_loop 0 False (replace_digraphs ds word))"

definition analyze_syllable_pattern :: "ustr list \<Rightarrow> ustr \<Rightarrow> ustr" where
  "analyze_syllable_pattern ds word =
     foldl (\<lambda>pattern c. if c \<in> ALL_VOWELS then pattern @ str ''V''
                         else if c \<in> CONSONANTS \<or> [c] = str ''X'' then pattern @ str ''C''
                         else pattern) [] (replace_digraphs ds word)"

definition calculate_phonological_complexity ::
  "VocalType set \<Rightarrow> ustr list \<Rightarrow> ustr list \<Rightarrow> int \<Rightarrow> real" where
  "calculate_phonological_complexity vts digraphs clusters syllables =
     (let complexity = 0 + min (real_of_int syllables * 0.1) 0.3;
          complexity = complexity + real (card vts) * 0.1;
          complexity = complexity + real (length digraphs) * 0.1;
          complexity = complexity + real (length clusters) * 0.15;
          complexity = (if LARYNGEALIZED \<in> vts then complexity + 0.2 else complexity)
      in min complexity 1)"

definition analyze_word :: "ustr list \<Rightarrow> ustr \<Rightarrow> error + PhonologicalFeatures" where
  "analyze_word ds shuar_word =
     (if shuar_word = [] \<or> strip shuar_word = [] then Inl ValidationError
      else
        let word = strip (lower shuar_word);
            vts = detect_vocal_types word;
            digraphs = detect_digraphs ds word;
            clusters = detect_consonant_clusters ds word;
            syllables = count_syllables ds word;
            pattern = analyze_syllable_pattern ds word;
            complexity = calculate_phonological_complexity vts digraphs clusters syllables
        in Inr \<lparr>vocal_types = vts, has_digraphs = (length digraphs > 0),
                digraphs_present = digraphs, consonant_clusters = clusters,
                syllable_count = syllables, syllable_pattern = pattern,
                phonological_complexity = complexity\<rparr>)"

fun ipa_loop :: "ustr \<Rightarrow> ustr" where
  "ipa_loop [] = []"
| "ipa_loop [c] = ipa_get [c]"
| "ipa_loop (c # d # rest) =
     (if [c, d] \<in> DIGRAPHS then ipa_get [c, d] @ ipa_loop rest
      else ipa_get [c] @ ipa_loop (d # rest))"

definition generate_ipa_transcription :: "ustr \<Rightarrow> ustr" where
  "generate_ipa_transcription shuar_word =
     (if shuar_word = [] then [] else ipa_loop (strip (lower shuar_word)))"

definition calculate_vocal_type_similarity :: "VocalType set \<Rightarrow> VocalType set \<Rightarrow> real" where
  "calculate_vocal_type_similarity types1 types2 =
     (if types1 = {} \<and> types2 = {} then 1
      else if types1 \<union> types2 \<noteq> {}
           then real (card (types1 \<inter> types2)) / real (card (types1 \<union> types2))
           else 0)"

definition calculate_syllable_similarity :: "int \<Rightarrow> int \<Rightarrow> error + real" where
  "calculate_syllable_similarity count1 count2 =
     (if count1 = count2 then Inr 1
      else
        let diff = \<bar>count1 - count2\<bar>; max_count = max count1 count2
        in if max_count = 0 then Inl ZeroDivisionError
           else Inr (max 0 (1 - real_of_int diff / real_of_int max_count)))"

text \<open>The distance matrix of \<^verbatim>\<open>_levenshtein_similarity\<close>, filled in the order of its loops.\<close>

definition levenshtein_matrix :: "ustr \<Rightarrow> ustr \<Rightarrow> nat list list" where
  "levenshtein_matrix s1 s2 =
     (let len1 = length s1; len2 = length s2;
          matrix = replicate (len1 + 1) (replicate (len2 + 1) 0);
          matrix = foldl (\<lambda>m i. m[i := (m ! i)[0 := i]]) matrix [0 ..< len1 + 1];
          matrix = foldl (\<lambda>m j. m[0 := (m ! 0)[j := j]]) matrix [0 ..< len2 + 1]
      in foldl (\<lambda>m i.
           foldl (\<lambda>m j.
             let cost = (if s1 ! (i - 1) = s2 ! (j - 1) then 0 else 1)
             in m[i := (m ! i)[j := min (min (m ! (i - 1) ! j + 1) (m ! i ! (j - 1) + 1))
                                        (m ! (i - 1) ! (j - 1) + cost)]])
             m [1 ..< len2 + 1])
           matrix [1 ..< len1 + 1])"

definition levenshtein_similarity :: "ustr \<Rightarrow> ustr \<Rightarrow> real" where
  "levenshtein_similarity s1 s2 =
     (if s1 = s2 then 1
      else if s1 = [] \<or> s2 = [] then 0
      else
        let len1 = length s1; len2 = length s2;
            distance = levenshtein_matrix s1 s2 ! len1 ! len2;
            max_len = max len1 len2
        in if max_len > 0 then 1 - real distance / real max_len else 0)"

definition calculate_pattern_similarity :: "ustr \<Rightarrow> ustr \<Rightarrow> real" where
  "calculate_pattern_similarity pattern1 pattern2 =
     (if pattern1 = pattern2 then 1
      else if pattern1 = [] \<or> pattern2 = [] then 0
      else levenshtein_similarity pattern1 pattern2)"

definition calculate_sound_similarity :: "ustr \<Rightarrow> ustr \<Rightarrow> real" where
  "calculate_sound_similarity word1 word2 =
     levenshtein_similarity (generate_ipa_transcription word1) (generate_ipa_transcription word2)"

definition calculate_phonological_similarity :: "ustr list \<Rightarrow> ustr \<Rightarrow> ustr \<Rightarrow> error + real" where
  "calculate_phonological_similarity ds word1 word2 =
     (if word1 = [] \<or> word2 = [] then Inr 0
      else
        bind (analyze_word ds word1) (\<lambda>features1.
        bind (analyze_word ds word2) (\<lambda>features2.
          let vocal_similarity =
                calculate_vocal_type_similarity (vocal_types features1) (vocal_types features2);
              similarity_score = 0 + vocal_similarity * 0.3
          in bind (calculate_syllable_similarity (syllable_count features1) (syllable_count features2))
               (\<lambda>syllable_similarity.
                  let similarity_score = similarity_score + syllable_similarity * 0.2;
                      pattern_similarity =
                        calculate_pattern_similarity (syllable_pattern features1) (syllable_pattern features2);
                      similarity_score = similarity_score + pattern_similarity * 0.25;
                      sound_similarity = calculate_sound_similarity word1 word2;
                      similarity_score = similarity_score + sound_similarity * 0.25
                  in Inr (min similarity_score 1)))))"

section \<open>SimilaritySearchService\<close>

record SearchCriteria =
  min_similarity_threshold :: real
  max_results :: int
  include_morphological :: bool
  include_semantic :: bool
  vocal_type_weight :: real
  phonological_weight :: real
  morphological_weight :: real

definition default_SearchCriteria :: SearchCriteria where
  "default_SearchCriteria =
     \<lparr>min_similarity_threshold = 0.3, max_results = 10, include_morphological = True,
      include_semantic = False, vocal_type_weight = 0.4, phonological_weight = 0.4,
      morphological_weight = 0.2\<rparr>"

text \<open>\<^verbatim>\<open>criteria or SearchCriteria()\<close>.\<close>

definition criteria_of :: "SearchCriteria option \<Rightarrow> SearchCriteria" where
  "criteria_of c = (case c of Some x \<Rightarrow> x | None \<Rightarrow> default_SearchCriteria)"

record SimilarWord =
  word :: Word
  similarity :: SimilarityScore
  explanation :: "ustr option"

definition extract_common_suffixes :: "ustr \<Rightarrow> ustr set" where
  "extract_common_suffixes w =
     {suffix \<in> set (map str [''-ni'', ''-ai'', ''-ka'', ''-ma'', ''-ta'', ''-nu'', ''-tu'',
                               ''-chi'', ''-tsu'']). endswith w (drop 1 suffix)}"

definition calculate_morphological_similarity_score :: "ustr \<Rightarrow> Word \<Rightarrow> real" where
  "calculate_morphological_similarity_score target_word candidate =
     (case morphological_info candidate of
        None \<Rightarrow> 0.5
      | Some info \<Rightarrow>
          let target_suffixes = extract_common_suffixes target_word;
              candidate_suffixes = set (applied_suffixes info);
              suffix_similarity =
                (if target_suffixes \<noteq> {} \<or> candidate_suffixes \<noteq> {}
                 then (if target_suffixes \<union> candidate_suffixes \<noteq> {}
                       then real (card (target_suffixes \<inter> candidate_suffixes)) /
                            real (card (target_suffixes \<union> candidate_suffixes))
                       else 0)
                 else 0.5);
              target_len = int (length target_word);
              candidate_len = int (length (shuar_text candidate));
              max_len = max target_len candidate_len;
              length_similarity =
                (if max_len > 0
                 then 1 - real_of_int \<bar>target_len - candidate_len\<bar> / real_of_int max_len
                 else 1)
          in suffix_similarity * 0.7 + length_similarity * 0.3)"

definition calculate_comprehensive_similarity ::
  "ustr list \<Rightarrow> ustr \<Rightarrow> PhonologicalFeatures \<Rightarrow> Word \<Rightarrow> SearchCriteria \<Rightarrow> error + SimilarityScore" where
  "calculate_comprehensive_similarity ds target_word target_features candidate criteria =
     bind (calculate_phonological_similarity ds target_word (shuar_text candidate))
       (\<lambda>phonological_sim.
          let morphological_sim =
                (if include_morphological criteria \<and> morphological_info candidate \<noteq> None
                 then calculate_morphological_similarity_score target_word candidate
                 else 0.5);
              semantic_sim = 0.5
          in SimilarityScore_create phonological_sim morphological_sim semantic_sim)"

text \<open>
  \<^verbatim>\<open>str.title\<close> on ASCII letters: the first letter of every run of letters in upper case,
  the others in lower case. \<^verbatim>\<open>sep.join(xs)\<close>.
\<close>

fun title_from :: "bool \<Rightarrow> ustr \<Rightarrow> ustr" where
  "title_from prev_cased [] = []"
| "title_from prev_cased (c # cs) =
     (if 97 \<le> c \<and> c \<le> 122 then (if prev_cased then c else c - 32) # title_from True cs
      else if 65 \<le> c \<and> c \<le> 90 then (if prev_cased then c + 32 else c) # title_from True cs
      else c # title_from False cs)"

definition title :: "ustr \<Rightarrow> ustr" where
  "title s = title_from False s"

fun join :: "ustr \<Rightarrow> ustr list \<Rightarrow> ustr" where
  "join sep [] = []"
| "join sep [x] = x"
| "join sep (x # y # ys) = x @ sep @ join sep (y # ys)"

definition generate_similarity_explanation :: "ustr \<Rightarrow> ustr \<Rightarrow> SimilarityScore \<Rightarrow> ustr" where
  "generate_similarity_explanation target_word candidate_word sim =
     (let explanations =
            (if phonological_similarity sim > 0.7 then [str ''similar sound patterns'']
             else if phonological_similarity sim > 0.5 then [str ''some sound similarities'']
             else []);
          explanations = explanations @
            (if morphological_similarity sim > 0.7 then [str ''similar word structure'']
             else if morphological_similarity sim > 0.5 then [str ''related morphological patterns'']
             else []);
          explanations = explanations @
            (if semantic_similarity sim > 0.7 then [str ''related meaning''] else []);
          explanations =
            (if explanations = [] then [str ''general linguistic patterns''] else explanations);
          level = get_similarity_level sim;
          base_explanation = title level @ str '' similarity to '' @ [39] @ target_word @ [39]
      in if explanations \<noteq> [] then base_explanation @ str '': '' @ join (str '', '') explanations
         else base_explanation)"

text \<open>The loop of \<^verbatim>\<open>find_similar_words\<close> over the candidates; the first exception ends it.\<close>

fun similar_words_loop ::
  "ustr list \<Rightarrow> ustr \<Rightarrow> PhonologicalFeatures \<Rightarrow> SearchCriteria \<Rightarrow> SimilarWord list \<Rightarrow> Word list
     \<Rightarrow> error + SimilarWord list" where
  "similar_words_loop ds target_word target_features criteria similar_words [] = Inr similar_words"
| "similar_words_loop ds target_word target_features criteria similar_words (candidate # rest) =
     (if lower (shuar_text candidate) = target_word
      then similar_words_loop ds target_word target_features criteria similar_words rest
      else
        bind (calculate_comprehensive_similarity ds target_word target_features candidate criteria)
          (\<lambda>sim.
             if overall_similarity sim \<ge> min_similarity_threshold criteria
             then similar_words_loop ds target_word target_features criteria
                    (similar_words @
                       [\<lparr>word = candidate, similarity = sim,
                         explanation = Some (generate_similarity_explanation target_word
                                               (shuar_text candidate) sim)\<rparr>])
                    rest
             else similar_words_loop ds target_word target_features criteria similar_words rest))"

text \<open>
  \<^verbatim>\<open>list.sort(key=overall_similarity, reverse=True)\<close>: a stable sort, descending by key.
  \<^verbatim>\<open>xs[:n]\<close>: the first \<open>n\<close> elements, and for a negative \<open>n\<close> all but the last \<open>-n\<close>.
\<close>

definition sort_descending :: "SimilarWord list \<Rightarrow> SimilarWord list" where
  "sort_descending xs = sort_key (\<lambda>sw. - overall_similarity (similarity sw)) xs"

definition slice_to :: "'a list \<Rightarrow> int \<Rightarrow> 'a list" where
  "slice_to xs n = (if n \<ge> 0 then take (nat n) xs else take (nat (int (length xs) + n)) xs)"

definition find_similar_words ::
  "ustr list \<Rightarrow> ustr \<Rightarrow> Word list \<Rightarrow> SearchCriteria option \<Rightarrow> error + SimilarWord list" where
  "find_similar_words ds target candidate_words criteria_opt =
     (if target = [] \<or> strip target = [] then Inl ValidationError
      else if candidate_words = [] then Inr []
      else
        let criteria = criteria_of criteria_opt;
            target_word = strip (lower target)
        in bind (analyze_word ds target_word) (\<lambda>target_features.
           bind (similar_words_loop ds target_word target_features criteria [] candidate_words)
             (\<lambda>similar_words.
                Inr (slice_to (sort_descending similar_words) (max_results criteria)))))"

text \<open>
  \<^verbatim>\<open>_calculate_rhyme_similarity\<close>. \<^verbatim>\<open>w[-n:]\<close> is the last \<open>n\<close> characters for a
  positive \<open>n\<close> and the word without its first \<open>-n\<close> characters for a negative one.
\<close>

definition ending :: "ustr \<Rightarrow> int \<Rightarrow> ustr" where
  "ending w n = (if n > 0 then drop (length w - nat n) w else drop (nat (- n)) w)"

definition calculate_rhyme_similarity ::
  "ustr \<Rightarrow> ustr \<Rightarrow> PhonologicalFeatures \<Rightarrow> PhonologicalFeatures \<Rightarrow> int \<Rightarrow> real" where
  "calculate_rhyme_similarity word1 word2 features1 features2 min_syllables_match =
     (let min_len = min (int (length word1)) (int (length word2));
          max_match_len = min min_len (min_syllables_match * 2)
      in if max_match_len = 0 then 0
         else
           let ending1 = ending word1 max_match_len;
               ending2 = ending word2 max_match_len;
               matches = length (filter (\<lambda>(c1, c2). c1 = c2) (zip ending1 ending2));
               similarity = real matches / real_of_int max_match_len;
               similarity = (if syllable_count features1 = syllable_count features2
                             then similarity + 0.2 else similarity)
           in min 1 similarity)"

fun rhyming_words_loop ::
  "ustr list \<Rightarrow> ustr \<Rightarrow> PhonologicalFeatures \<Rightarrow> int \<Rightarrow> Word list \<Rightarrow> Word list \<Rightarrow> error + Word list" where
  "rhyming_words_loop ds target_word target_features m rhyming_words [] = Inr rhyming_words"
| "rhyming_words_loop ds target_word target_features m rhyming_words (candidate # rest) =
     bind (analyze_word ds (shuar_text candidate))
       (\<lambda>candidate_features.
          let rhyme_similarity =
                calculate_rhyme_similarity target_word (shuar_text candidate)
                  target_features candidate_features m
          in if rhyme_similarity > 0.6
             then rhyming_words_loop ds target_word target_features m (rhyming_words @ [candidate]) rest
             else rhyming_words_loop ds target_word target_features m rhyming_words rest)"

definition find_rhyming_words :: "ustr list \<Rightarrow> ustr \<Rightarrow> Word list \<Rightarrow> int \<Rightarrow> error + Word list" where
  "find_rhyming_words ds target candidate_words min_syllables_match =
     (if target = [] then Inr []
      else
        let target_word = strip (lower target)
        in bind (analyze_word ds target_word) (\<lambda>target_features.
             rhyming_words_loop ds target_word target_features min_syllables_match []
               candidate_words))"

text \<open>
  \<^verbatim>\<open>_count_phonological_differences\<close> returns an integer or \<^verbatim>\<open>float('inf')\<close>;
  \<^verbatim>\<open>float('inf') <= m\<close> is false for every integer \<open>m\<close>.
\<close>

datatype differences = Differences int | Infinite

fun differences_le :: "differences \<Rightarrow> int \<Rightarrow> bool" where
  "differences_le (Differences d) m = (d \<le> m)"
| "differences_le Infinite m = False"

definition count_phonological_differences :: "Word \<Rightarrow> Word \<Rightarrow> differences" where
  "count_phonological_differences word1 word2 =
     (case (phonological_info word1, phonological_info word2) of
        (Some info1, Some info2) \<Rightarrow>
          let types1 = set (vocal_types_present info1);
              types2 = set (vocal_types_present info2);
              differences = 0 + int (card ((types1 - types2) \<union> (types2 - types1)));
              differences =
                (if number_of_syllables info1 \<noteq> number_of_syllables info2
                 then differences + 1 else differences);
              ipa1 = ipa_transcription info1;
              ipa2 = ipa_transcription info2;
              max_len = max (length ipa1) (length ipa2);
              char_differences =
                length (filter (\<lambda>i. i \<ge> length ipa1 \<or> i \<ge> length ipa2 \<or> ipa1 ! i \<noteq> ipa2 ! i)
                          [0 ..< max_len])
          in Differences (differences + int char_differences)
      | _ \<Rightarrow> Infinite)"

fun find_minimal_pairs :: "Word list \<Rightarrow> int \<Rightarrow> (Word \<times> Word) list" where
  "find_minimal_pairs [] max_differences = []"
| "find_minimal_pairs (word1 # rest) max_differences =
     map (\<lambda>word2. (word1, word2))
       (filter (\<lambda>word2. differences_le (count_phonological_differences word1 word2) max_differences)
          rest)
     @ find_minimal_pairs rest max_differences"

section \<open>LanguageDetectionService\<close>

datatype Language = SHUAR | SPANISH

datatype DetectionConfidence = HIGH | MEDIUM | LOW

text \<open>
  The dictionary \<^verbatim>\<open>features\<close> always has the same fifteen keys; it is a record with one
  field per key.
\<close>

record Features =
  shuar_nasal_vowels :: real
  shuar_laryngealized_vowels :: real
  shuar_digraphs :: real
  spanish_digraphs :: real
  has_spanish_o :: real
  vowel_system_shuar :: real
  vowel_system_spanish :: real
  shuar_common_words :: real
  spanish_common_words :: real
  shuar_suffixes :: real
  spanish_suffixes :: real
  consonant_density :: real
  vowel_diversity :: real
  avg_word_length :: real
  syllable_complexity :: real

text \<open>
  \<open>detection_confidence_level\<close> and \<open>detection_explanation\<close> are the fields
  \<^verbatim>\<open>confidence_level\<close> and \<^verbatim>\<open>explanation\<close> of the result.
\<close>

record LanguageDetectionResult =
  detected_language :: Language
  confidence :: real
  detection_confidence_level :: DetectionConfidence
  features_detected :: Features
  detection_explanation :: ustr

definition SHUAR_VOWELS :: "nat set" where
  "SHUAR_VOWELS = set (str ''aeiu'') \<union> {225, 233, 237, 250} \<union> {228, 235, 239, 252}"

definition SHUAR_NASAL_VOWELS :: "nat set" where
  "SHUAR_NASAL_VOWELS = {225, 233, 237, 250}"

definition SHUAR_LARYNGEALIZED_VOWELS :: "nat set" where
  "SHUAR_LARYNGEALIZED_VOWELS = {228, 235, 239, 252}"

definition SPANISH_VOWELS :: "nat set" where
  "SPANISH_VOWELS = set (str ''aeiou'') \<union> {225, 233, 237, 243, 250, 252}"

text \<open>The sets of strings are only summed over or searched, so a list without repetitions stands for each.\<close>

definition SHUAR_DIGRAPHS :: "ustr list" where
  "SHUAR_DIGRAPHS = map str [''ch'', ''sh'', ''ts'']"

definition SPANISH_DIGRAPHS :: "ustr list" where
  "SPANISH_DIGRAPHS = map str [''ch'', ''ll'', ''rr'']"

definition SHUAR_COMMON_WORDS :: "ustr list" where
  "SHUAR_COMMON_WORDS =
     map str [''yawa'', ''jea'', ''shuar'', ''arutam''] @ [[110, 250, 107, 97]] @
     map str [''apa'', ''entsa'', ''tsaa'', ''saant'', ''kunkuk'', ''chichim'', ''wampish'', ''nuna'',
              ''mama'', ''tau'', ''inia'', ''uunt''] @ [[121, 228]] @
     map str [''takuni''] @ [[116, 115, 225, 97, 110, 105, 110]]"

definition SPANISH_COMMON_WORDS :: "ustr list" where
  "SPANISH_COMMON_WORDS =
     map str [''el'', ''la'', ''de'', ''que'', ''y'', ''a'', ''en'', ''un'', ''es'', ''se'',
              ''no'', ''te'', ''lo'', ''le'', ''da'', ''su'', ''por'', ''son'', ''con'', ''para'',
              ''casa'', ''perro'', ''agua'', ''bueno'', ''grande'', ''persona'', ''sol'']"

definition SHUAR_SUFFIXES :: "ustr list" where
  "SHUAR_SUFFIXES = map str [''-ni'', ''-ai'', ''-ka'', ''-ma'', ''-ta'', ''-nu'', ''-tu'', ''-chi'']"

definition SPANISH_SUFFIXES :: "ustr list" where
  "SPANISH_SUFFIXES =
     [[45, 99, 105, 243, 110]] @
     map str [''-dad'', ''-mente'', ''-oso'', ''-osa'', ''-ado'', ''-ada'', ''-ero'', ''-era'']"

definition count_feature_ratio :: "ustr \<Rightarrow> nat set \<Rightarrow> nat \<Rightarrow> real" where
  "count_feature_ratio text feature_set total_chars =
     (if total_chars = 0 then 0
      else real (length (filter (\<lambda>c. c \<in> feature_set) text)) / real total_chars)"

definition count_digraph_ratio :: "ustr \<Rightarrow> ustr list \<Rightarrow> nat \<Rightarrow> real" where
  "count_digraph_ratio text digraphs total_words =
     (if total_words = 0 then 0
      else real (sum_list (map (count_sub text) digraphs)) / real total_words)"

definition analyze_vowel_system_shuar :: "ustr \<Rightarrow> real" where
  "analyze_vowel_system_shuar text =
     (let vowels_found = {c \<in> set text. c \<in> SHUAR_VOWELS};
          base_found = vowels_found \<inter> set (str ''aeiu'');
          score = real (card base_found) / 4;
          score = (if vowels_found \<inter> SHUAR_NASAL_VOWELS \<noteq> {} then score + 0.3 else score);
          score = (if vowels_found \<inter> SHUAR_LARYNGEALIZED_VOWELS \<noteq> {} then score + 0.4 else score);
          score = (if of_char CHR ''o'' \<in> vowels_found then score - 0.5 else score)
      in max 0 (min 1 score))"

definition analyze_vowel_system_spanish :: "ustr \<Rightarrow> real" where
  "analyze_vowel_system_spanish text =
     (let vowels_found = {c \<in> set text. c \<in> SPANISH_VOWELS};
          base_found = vowels_found \<inter> set (str ''aeiou'');
          score = real (card base_found) / 5;
          score = (if of_char CHR ''o'' \<in> vowels_found then score + 0.3 else score);
          score = (if vowels_found \<inter> SHUAR_LARYNGEALIZED_VOWELS \<noteq> {} then score - 0.6 else score)
      in max 0 (min 1 score))"

definition count_common_words :: "ustr list \<Rightarrow> ustr list \<Rightarrow> real" where
  "count_common_words words common_set =
     (if words = [] then 0
      else real (length (filter (\<lambda>w. w \<in> set common_set) words)) / real (length words))"

definition count_suffix_patterns :: "ustr list \<Rightarrow> ustr list \<Rightarrow> real" where
  "count_suffix_patterns words suffix_set =
     (if words = [] then 0
      else real (length (filter (\<lambda>w. \<exists>suffix \<in> set suffix_set. endswith w suffix) words)) /
           real (length words))"

text \<open>\<^verbatim>\<open>str.isalpha\<close> for one code point, on Basic Latin and the Latin-1 Supplement.\<close>

definition isalpha :: "nat \<Rightarrow> bool" where
  "isalpha c \<longleftrightarrow>
     (65 \<le> c \<and> c \<le> 90) \<or> (97 \<le> c \<and> c \<le> 122) \<or> c = 170 \<or> c = 181 \<or> c = 186 \<or>
     (192 \<le> c \<and> c \<le> 214) \<or> (216 \<le> c \<and> c \<le> 246) \<or> (248 \<le> c \<and> c \<le> 255)"

definition calculate_consonant_density :: "ustr \<Rightarrow> real" where
  "calculate_consonant_density text =
     (if text = [] then 0
      else
        let consonants = length (filter (\<lambda>c. isalpha c \<and> c \<notin> SHUAR_VOWELS) text);
            total_letters = length (filter isalpha text)
        in if total_letters > 0 then real consonants / real total_letters else 0)"

definition calculate_vowel_diversity :: "ustr \<Rightarrow> real" where
  "calculate_vowel_diversity text =
     (let vowels_found = {c \<in> set text. c \<in> SHUAR_VOWELS \<union> SPANISH_VOWELS};
          max_possible = card SPANISH_VOWELS
      in real (card vowels_found) / real max_possible)"

text \<open>
  \<^verbatim>\<open>len(re.findall(r'[bcdfghjklmnpqrstvwxyz]{2,}', word))\<close>: the number of maximal runs of
  at least two of these letters; \<open>run\<close> is the length of the run read so far.
\<close>

fun count_clusters :: "nat \<Rightarrow> ustr \<Rightarrow> nat" where
  "count_clusters run [] = (if run \<ge> 2 then 1 else 0)"
| "count_clusters run (c # cs) =
     (if c \<in> set (str ''bcdfghjklmnpqrstvwxyz'') then count_clusters (run + 1) cs
      else (if run \<ge> 2 then 1 else 0) + count_clusters 0 cs)"

definition estimate_syllable_complexity :: "ustr \<Rightarrow> real" where
  "estimate_syllable_complexity text =
     (let words = split text
      in if words = [] then 0
         else
           let total_complexity =
                 foldl (\<lambda>total w. total + (if w \<noteq> []
                                            then real (count_clusters 0 w) / real (length w)
                                            else 0)) 0 words
           in total_complexity / real (length words))"

definition analyze_features :: "ustr \<Rightarrow> Features" where
  "analyze_features text =
     (let words = split text;
          total_chars = length (replace text (str '' '') [])
      in \<lparr>shuar_nasal_vowels = count_feature_ratio text SHUAR_NASAL_VOWELS total_chars,
          shuar_laryngealized_vowels = count_feature_ratio text SHUAR_LARYNGEALIZED_VOWELS total_chars,
          shuar_digraphs = count_digraph_ratio text SHUAR_DIGRAPHS (length words),
          spanish_digraphs = count_digraph_ratio text SPANISH_DIGRAPHS (length words),
          has_spanish_o = (if of_char CHR ''o'' \<in> set text then 1 else 0),
          vowel_system_shuar = analyze_vowel_system_shuar text,
          vowel_system_spanish = analyze_vowel_system_spanish text,
          shuar_common_words = count_common_words words SHUAR_COMMON_WORDS,
          spanish_common_words = count_common_words words SPANISH_COMMON_WORDS,
          shuar_suffixes = count_suffix_patterns words SHUAR_SUFFIXES,
          spanish_suffixes = count_suffix_patterns words SPANISH_SUFFIXES,
          consonant_density = calculate_consonant_density text,
          vowel_diversity = calculate_vowel_diversity text,
          avg_word_length =
            (if words \<noteq> [] then real (sum_list (map length words)) / real (length words) else 0),
          syllable_complexity = estimate_syllable_complexity text\<rparr>)"

definition calculate_shuar_score :: "Features \<Rightarrow> real" where
  "calculate_shuar_score features =
     (let score = 0 + shuar_nasal_vowels features * 3;
          score = score + shuar_laryngealized_vowels features * 4;
          score = score + vowel_system_shuar features * 2;
          score = score + shuar_common_words features * 3;
          score = score + shuar_suffixes features * 2;
          score = score + shuar_digraphs features * 1.5
      in if avg_word_length features > 4 then score + 1 else score)"

definition calculate_spanish_score :: "Features \<Rightarrow> real" where
  "calculate_spanish_score features =
     (let score = 0 + has_spanish_o features * 3;
          score = score + vowel_system_spanish features * 2;
          score = score + spanish_common_words features * 3;
          score = score + spanish_suffixes features * 2;
          score = score + spanish_digraphs features * 1.5;
          score = score - shuar_laryngealized_vowels features * 2;
          score = score - shuar_nasal_vowels features * 1
      in max 0 score)"

definition get_confidence_level :: "real \<Rightarrow> DetectionConfidence" where
  "get_confidence_level c =
     (if c > 0.8 then HIGH
      else if c > 0.5 then MEDIUM
      else LOW)"

text \<open>
  The format \<^verbatim>\<open>:.2f\<close>: the value rounded to two decimals, a tie going to the even
  neighbour.
\<close>

function decimal :: "nat \<Rightarrow> ustr" where
  "decimal n = (if n < 10 then [48 + n] else decimal (n div 10) @ [48 + n mod 10])"
  by pat_completeness auto
termination
  by (relation "measure (\<lambda>n. n)") auto

definition round_half_even :: "real \<Rightarrow> int" where
  "round_half_even x =
     (let f = \<lfloor>x\<rfloor>; d = x - of_int f
      in if d < 1 / 2 then f else if d > 1 / 2 then f + 1 else if even f then f else f + 1)"

definition format_2f :: "real \<Rightarrow> ustr" where
  "format_2f x =
     (let n = nat (round_half_even (\<bar>x\<bar> * 100));
          body = decimal (n div 100) @ str ''.'' @ [48 + (n div 10) mod 10, 48 + n mod 10]
      in if x < 0 then str ''-'' @ body else body)"

definition generate_explanation :: "Language \<Rightarrow> Features \<Rightarrow> real \<Rightarrow> real \<Rightarrow> ustr" where
  "generate_explanation language features shuar_score spanish_score =
     (let explanations =
            (if language = SHUAR then
               (if shuar_laryngealized_vowels features > 0
                then [str ''Contains laryngealized vowels ('' @ [228] @ str '', '' @ [235] @ str '', '' @
                      [239] @ str '', '' @ [252] @ str '') unique to Shuar''] else []) @
               (if shuar_nasal_vowels features > 0
                then [str ''Contains nasal vowels ('' @ [225] @ str '', '' @ [233] @ str '', '' @
                      [237] @ str '', '' @ [250] @ str '') typical of Shuar''] else []) @
               (if shuar_common_words features > 0 then [str ''Contains common Shuar words''] else []) @
               (if has_spanish_o features = 0
                then [str ''Lacks the vowel '' @ [39] @ str ''o'' @ [39] @
                      str '' which is absent in Shuar''] else [])
             else
               (if has_spanish_o features > 0
                then [str ''Contains the vowel '' @ [39] @ str ''o'' @ [39] @
                      str '' which is present in Spanish but not Shuar''] else []) @
               (if spanish_common_words features > 0 then [str ''Contains common Spanish words''] else []) @
               (if spanish_suffixes features > 0
                then [str ''Contains Spanish morphological patterns''] else []));
          base_explanation =
            str ''Detected as '' @ title (case language of SHUAR \<Rightarrow> str ''shuar'' | SPANISH \<Rightarrow> str ''spanish'')
            @ str '' '' @ str ''(Shuar score: '' @ format_2f shuar_score @ str '', Spanish score: '' @
            format_2f spanish_score @ str '')''
      in if explanations \<noteq> [] then base_explanation @ str ''. '' @ join (str ''; '') explanations @ str ''.''
         else base_explanation @ str ''. Based on general linguistic patterns.'')"

text \<open>Float division: \<^verbatim>\<open>a / b\<close> raises \<^verbatim>\<open>ZeroDivisionError\<close> when \<open>b\<close> is zero.\<close>

definition py_div :: "real \<Rightarrow> real \<Rightarrow> error + real" where
  "py_div a b = (if b = 0 then Inl ZeroDivisionError else Inr (a / b))"

definition detect_language :: "ustr \<Rightarrow> error + LanguageDetectionResult" where
  "detect_language text0 =
     (if text0 = [] \<or> strip text0 = [] then Inl ValidationError
      else
        let text = strip (lower text0);
            features = analyze_features text;
            shuar_score = calculate_shuar_score features;
            spanish_score = calculate_spanish_score features;
            language = (if shuar_score > spanish_score then SHUAR else SPANISH)
        in bind (if shuar_score > spanish_score
                 then py_div shuar_score (shuar_score + spanish_score)
                 else py_div spanish_score (shuar_score + spanish_score))
             (\<lambda>c. Inr \<lparr>detected_language = language, confidence = c,
                        detection_confidence_level = get_confidence_level c,
                        features_detected = features,
                        detection_explanation =
                          generate_explanation language features shuar_score spanish_score\<rparr>))"

section \<open>TranslationScoringService\<close>

datatype TranslationStatus = PENDING | APPROVED | REJECTED | NEEDS_REVIEW

datatype UserRole = VISITOR | COMMUNITY_MEMBER | VERIFIED_SPEAKER | EXPERT | ADMIN

text \<open>
  The fields of Translation and Feedback that the scoring service reads; a UUID is a number.
  \<open>translation_context\<close> is the field \<^verbatim>\<open>context\<close> of Translation.
\<close>

record TranslationContext =
  cultural_notes :: "ustr option"

record Translation =
  source_text :: ustr
  target_text :: ustr
  translation_context :: "TranslationContext option"
  usage_count :: int
  average_rating :: real
  total_ratings :: int
  status :: TranslationStatus
  approved_by :: "nat option"

record Feedback =
  user_role :: UserRole
  rating :: "int option"
  suggested_translation :: "ustr option"
  cultural_context :: "ustr option"
  is_from_native_speaker :: bool

record TranslationQualityMetrics =
  confidence_score :: real
  community_rating :: real
  expert_approval :: bool
  usage_frequency :: int
  feedback_count :: nat
  native_speaker_approval :: bool
  phonological_accuracy :: real
  cultural_appropriateness :: real
  overall_quality_score :: real

definition COMMUNITY_RATING_WEIGHT :: real where "COMMUNITY_RATING_WEIGHT = 0.25"
definition EXPERT_APPROVAL_WEIGHT :: real where "EXPERT_APPROVAL_WEIGHT = 0.30"
definition USAGE_FREQUENCY_WEIGHT :: real where "USAGE_FREQUENCY_WEIGHT = 0.15"
definition PHONOLOGICAL_ACCURACY_WEIGHT :: real where "PHONOLOGICAL_ACCURACY_WEIGHT = 0.15"
definition CULTURAL_APPROPRIATENESS_WEIGHT :: real where "CULTURAL_APPROPRIATENESS_WEIGHT = 0.15"

fun FEEDBACK_WEIGHTS :: "UserRole \<Rightarrow> real" where
  "FEEDBACK_WEIGHTS VISITOR = 1.0"
| "FEEDBACK_WEIGHTS COMMUNITY_MEMBER = 1.2"
| "FEEDBACK_WEIGHTS VERIFIED_SPEAKER = 2.0"
| "FEEDBACK_WEIGHTS EXPERT = 3.0"
| "FEEDBACK_WEIGHTS ADMIN = 3.0"

fun get_status_confidence :: "TranslationStatus \<Rightarrow> real" where
  "get_status_confidence APPROVED = 0.9"
| "get_status_confidence NEEDS_REVIEW = 0.6"
| "get_status_confidence PENDING = 0.4"
| "get_status_confidence REJECTED = 0.1"

definition calculate_rating_confidence :: "real \<Rightarrow> int \<Rightarrow> real" where
  "calculate_rating_confidence avg_rating n_ratings =
     (if n_ratings = 0 then 0.5
      else
        let rating_confidence = (avg_rating - 1) / 4;
            reliability_factor = min 1 (real_of_int n_ratings / 10)
        in rating_confidence * reliability_factor + 0.5 * (1 - reliability_factor))"

text \<open>\<^verbatim>\<open>math.log(x)\<close> for an integer \<open>x\<close>: a \<^verbatim>\<open>ValueError\<close> unless \<open>x\<close> is positive.\<close>

definition math_log :: "int \<Rightarrow> error + real" where
  "math_log x = (if x \<le> 0 then Inl ValueError else Inr (ln (real_of_int x)))"

definition calculate_usage_confidence :: "int \<Rightarrow> error + real" where
  "calculate_usage_confidence uses =
     (if uses = 0 then Inr 0.3
      else bind (math_log (uses + 1)) (\<lambda>l. Inr (min 1 (0.3 + 0.7 * (l / ln 101)))))"

definition calculate_word_based_confidence :: "Word \<Rightarrow> real" where
  "calculate_word_based_confidence w =
     (let c = 0.5;
          c = (if is_verified w then c + 0.3 else c);
          c = c + confidence_level w * 0.2;
          c = (if frequency_score w > 10 then c + 0.1 else c)
      in min 1 c)"

text \<open>
  The loops of \<^verbatim>\<open>_calculate_feedback_confidence\<close> and
  \<^verbatim>\<open>_calculate_weighted_community_rating\<close> keep a list of weighted values and the total
  weight; \<open>feedback_weight\<close> is the weight they give to one item.
\<close>

definition feedback_weight :: "Feedback \<Rightarrow> real" where
  "feedback_weight f =
     (let weight = FEEDBACK_WEIGHTS (user_role f)
      in if is_from_native_speaker f then weight * 1.5 else weight)"

definition calculate_feedback_confidence :: "Feedback list \<Rightarrow> real" where
  "calculate_feedback_confidence feedback_list =
     (if feedback_list = [] then 0.5
      else
        let (weighted_scores, total_weight) =
              foldl (\<lambda>(scores, total) f.
                       case rating f of
                         None \<Rightarrow> (scores, total)
                       | Some r \<Rightarrow>
                           let weight = feedback_weight f;
                               rating_confidence = (real_of_int r - 1) / 4
                           in (scores @ [rating_confidence * weight], total + weight))
                ([], 0) feedback_list
        in if total_weight = 0 then 0.5 else sum_list weighted_scores / total_weight)"

definition calculate_weighted_community_rating :: "Feedback list \<Rightarrow> real" where
  "calculate_weighted_community_rating feedback_list =
     (if feedback_list = [] then 0
      else
        let (weighted_ratings, total_weight) =
              foldl (\<lambda>(ratings, total) f.
                       case rating f of
                         None \<Rightarrow> (ratings, total)
                       | Some r \<Rightarrow>
                           let weight = feedback_weight f
                           in (ratings @ [real_of_int r * weight], total + weight))
                ([], 0) feedback_list
        in if total_weight = 0 then 0 else sum_list weighted_ratings / total_weight)"

definition has_native_speaker_approval :: "Feedback list \<Rightarrow> bool" where
  "has_native_speaker_approval feedback_list \<longleftrightarrow>
     (\<exists>f \<in> set feedback_list.
        is_from_native_speaker f \<and> (case rating f of None \<Rightarrow> False | Some r \<Rightarrow> r \<ge> 4))"

definition assess_phonological_accuracy :: "Translation \<Rightarrow> Word \<Rightarrow> real" where
  "assess_phonological_accuracy translation source_word =
     (let accuracy = 0.5;
          accuracy =
            (if phonological_info source_word \<noteq> None then
               (let accuracy = (if length (target_text translation) \<ge> length (source_text translation)
                                then accuracy + 0.2 else accuracy)
                in if is_verified source_word then accuracy + 0.3 else accuracy)
             else accuracy)
      in min 1 accuracy)"

definition assess_cultural_appropriateness :: "Translation \<Rightarrow> Feedback list \<Rightarrow> real" where
  "assess_cultural_appropriateness translation feedback_list =
     (let appropriateness = 0.5;
          cultural_feedback =
            filter (\<lambda>f. case cultural_context f of None \<Rightarrow> False | Some c \<Rightarrow> strip c \<noteq> [])
              feedback_list;
          cultural_ratings = concat (map (\<lambda>f. case rating f of None \<Rightarrow> [] | Some r \<Rightarrow> [r]) cultural_feedback);
          appropriateness =
            (if cultural_feedback \<noteq> [] \<and> cultural_ratings \<noteq> []
             then (real_of_int (sum_list cultural_ratings) / real (length cultural_ratings) - 1) / 4
             else appropriateness);
          appropriateness =
            (if (case translation_context translation of
                   None \<Rightarrow> False
                 | Some ctx \<Rightarrow> (case cultural_notes ctx of None \<Rightarrow> False | Some n \<Rightarrow> n \<noteq> []))
             then appropriateness + 0.2 else appropriateness)
      in min 1 appropriateness)"

definition calculate_translation_confidence ::
  "Translation \<Rightarrow> Word option \<Rightarrow> Feedback list option \<Rightarrow> error + real" where
  "calculate_translation_confidence translation source_word feedback_list =
     (let confidence_factors = [(get_status_confidence (status translation), 0.3)];
          confidence_factors =
            (if total_ratings translation > 0
             then confidence_factors @
                    [(calculate_rating_confidence (average_rating translation)
                        (total_ratings translation), 0.25)]
             else confidence_factors)
      in bind (calculate_usage_confidence (usage_count translation)) (\<lambda>usage_confidence.
           let confidence_factors = confidence_factors @ [(usage_confidence, 0.15)];
               confidence_factors =
                 (case source_word of
                    Some w \<Rightarrow> confidence_factors @ [(calculate_word_based_confidence w, 0.15)]
                  | None \<Rightarrow> confidence_factors);
               confidence_factors =
                 (case feedback_list of
                    Some (f # fs) \<Rightarrow>
                      confidence_factors @ [(calculate_feedback_confidence (f # fs), 0.15)]
                  | _ \<Rightarrow> confidence_factors);
               total_weight = sum_list (map snd confidence_factors)
           in if total_weight = 0 then Inr 0.5
              else
                let weighted_sum = sum_list (map (\<lambda>(score, weight). score * weight) confidence_factors)
                in Inr (min 1 (weighted_sum / total_weight))))"

definition calculate_overall_quality ::
  "real \<Rightarrow> real \<Rightarrow> bool \<Rightarrow> int \<Rightarrow> real \<Rightarrow> real \<Rightarrow> error + real" where
  "calculate_overall_quality confidence_sc community_rt expert_appr usage_freq phon_acc cult_appr =
     (let normalized_rating = (if community_rt > 0 then (community_rt - 1) / 4 else 0.5);
          expert_bonus = (if expert_appr then 0.2 else 0)
      in bind (math_log (usage_freq + 1)) (\<lambda>l.
           let usage_factor = min 0.2 (l / 25);
               quality_score =
                 confidence_sc * COMMUNITY_RATING_WEIGHT +
                 normalized_rating * EXPERT_APPROVAL_WEIGHT +
                 phon_acc * PHONOLOGICAL_ACCURACY_WEIGHT +
                 cult_appr * CULTURAL_APPROPRIATENESS_WEIGHT +
                 expert_bonus +
                 usage_factor
           in Inr (min 1 quality_score)))"

definition calculate_quality_metrics ::
  "Translation \<Rightarrow> Feedback list \<Rightarrow> Word option \<Rightarrow> error + TranslationQualityMetrics" where
  "calculate_quality_metrics translation feedback_list source_word =
     bind (calculate_translation_confidence translation source_word (Some feedback_list))
       (\<lambda>confidence_sc.
          let community_rt = calculate_weighted_community_rating feedback_list;
              expert_appr = (approved_by translation \<noteq> None);
              usage_freq = usage_count translation;
              n_feedback = length feedback_list;
              native_appr = has_native_speaker_approval feedback_list;
              phon_acc =
                (case source_word of
                   Some w \<Rightarrow> (if phonological_info w \<noteq> None
                              then assess_phonological_accuracy translation w else 0.5)
                 | None \<Rightarrow> 0.5);
              cult_appr = assess_cultural_appropriateness translation feedback_list
          in bind (calculate_overall_quality confidence_sc community_rt expert_appr usage_freq
                     phon_acc cult_appr)
               (\<lambda>overall.
                  Inr \<lparr>confidence_score = confidence_sc, community_rating = community_rt,
                       expert_approval = expert_appr, usage_frequency = usage_freq,
                       feedback_count = n_feedback, native_speaker_approval = native_appr,
                       phonological_accuracy = phon_acc, cultural_appropriateness = cult_appr,
                       overall_quality_score = overall\<rparr>))"

section \<open>Example entities\<close>

text \<open>Words and phonological records on which the properties below are evaluated.\<close>

definition example_word :: "ustr \<Rightarrow> PhonologicalInfo option \<Rightarrow> Word" where
  "example_word t info =
     \<lparr>shuar_text = t, spanish_translation = str ''mujer'', phonological_info = info,
      morphological_info = None, frequency_score = 0, confidence_level = 0.5,
      is_verified = False\<rparr>"

definition example_info :: "ustr \<Rightarrow> PhonologicalInfo" where
  "example_info ipa =
     \<lparr>ipa_transcription = ipa, has_nasal_vowels = False, has_laryngealized_vowels = False,
      vocal_types_present = [ORAL], number_of_syllables = 1,
      info_syllable_pattern = Some (str ''CVV'')\<rparr>"

definition example_translation :: "TranslationStatus \<Rightarrow> Translation" where
  "example_translation st =
     \<lparr>source_text = str ''nua'', target_text = str ''mujer'', translation_context = None,
      usage_count = 0, average_rating = 0, total_ratings = 0, status = st,
      approved_by = None\<rparr>"

definition rated_translation :: "real \<Rightarrow> Translation" where
  "rated_translation avg =
     \<lparr>source_text = str ''nua'', target_text = str ''mujer'', translation_context = None,
      usage_count = 0, average_rating = avg, total_ratings = 10, status = PENDING,
      approved_by = None\<rparr>"

definition example_feedback :: "int option \<Rightarrow> Feedback" where
  "example_feedback r =
     \<lparr>user_role = VISITOR, rating = r, suggested_translation = Some (str ''mujer''),
      cultural_context = None, is_from_native_speaker = False\<rparr>"

section \<open>Properties\<close>

subsection \<open>Evaluation of the string functions\<close>

lemma strip_Nil: "strip [] = []"
  by (simp add: strip_def)

lemma example_word_text: "shuar_text (example_word t info) = t"
  by (simp add: example_word_def)

lemma example_word_info: "phonological_info (example_word t info) = info"
  by (simp add: example_word_def)

lemma analyze_word_blank:
  "w = [] \<or> strip w = [] \<Longrightarrow> analyze_word ds w = Inl ValidationError"
  by (auto simp add: analyze_word_def)

lemma analyze_word_error: "analyze_word ds w = Inl e \<Longrightarrow> e = ValidationError"
  unfolding analyze_word_def Let_def by (simp split: if_splits)

lemma analyze_word_returns:
  assumes "strip w \<noteq> []"
  shows "\<exists>f. analyze_word ds w = Inr f"
proof -
  from assms have "w \<noteq> []" by (auto simp add: strip_Nil)
  with assms show ?thesis unfolding analyze_word_def Let_def by simp
qed

lemma vocal_type_similarity_refl: "calculate_vocal_type_similarity A A = 1"
proof (cases "A = {}")
  case True
  then show ?thesis by (simp add: calculate_vocal_type_similarity_def)
next
  case False
  have "finite A"
  proof (rule finite_subset)
    show "A \<subseteq> {ORAL, NASAL, LARYNGEALIZED}"
    proof
      fix x assume "x \<in> A"
      show "x \<in> {ORAL, NASAL, LARYNGEALIZED}" by (cases x) simp_all
    qed
  qed simp
  with False have "card A \<noteq> 0" by simp
  with False show ?thesis by (simp add: calculate_vocal_type_similarity_def)
qed

subsection \<open>Translation confidence without ratings, usage, word or feedback\<close>

text \<open>
  Claim C1, as amended. The status factor (weight 0.3) and the usage factor (weight 0.15,
  value 0.3 for a translation that was never used) are always part of the weighted average, so
  the total weight is never zero and the default 0.5 is never returned. For a translation with
  no ratings and no usage, without source word and without feedback (no list or an empty one),
  the confidence is (2 * status confidence + 0.3) / 3: 0.7 for an approved translation, 0.5 for
  one that needs review, 11/30 for a pending and 1/6 for a rejected one. It is 0.5 exactly when
  the status is NEEDS_REVIEW.
\<close>

theorem confidence_without_signals:
  assumes "total_ratings t = 0" and "usage_count t = 0" and "fb = None \<or> fb = Some []"
  shows "calculate_translation_confidence t None fb
           = Inr ((2 * get_status_confidence (status t) + 0.3) / 3) \<and>
         (calculate_translation_confidence t None fb = Inr 0.5 \<longleftrightarrow> status t = NEEDS_REVIEW)"
proof -
  have v: "calculate_translation_confidence t None fb
           = Inr ((2 * get_status_confidence (status t) + 0.3) / 3)"
    using assms unfolding calculate_translation_confidence_def calculate_usage_confidence_def Let_def
    by (cases "status t") auto
  have "((2 * get_status_confidence (status t) + 0.3) / 3 = 0.5) = (status t = NEEDS_REVIEW)"
    by (cases "status t") simp_all
  with v show ?thesis by simp
qed

text \<open>The amended claim at an approved translation with an empty feedback list.\<close>

theorem confidence_without_signals_witness:
  "total_ratings (example_translation APPROVED) = 0 \<and>
   usage_count (example_translation APPROVED) = 0 \<and>
   calculate_translation_confidence (example_translation APPROVED) None (Some []) = Inr (7 / 10)"
  using confidence_without_signals [of "example_translation APPROVED" "Some []"]
  by (simp add: example_translation_def)

text \<open>
  Claim C1 as stated fails: a pending translation with no ratings and no usage, no word and
  no feedback has confidence (0.4 * 0.3 + 0.3 * 0.15) / 0.45 = 11/30, not 0.5.
\<close>

theorem confidence_without_signals_counterexample:
  "total_ratings (example_translation PENDING) = 0 \<and>
   usage_count (example_translation PENDING) = 0 \<and>
   calculate_translation_confidence (example_translation PENDING) None None = Inr (11 / 30) \<and>
   calculate_translation_confidence (example_translation PENDING) None None \<noteq> Inr 0.5"
  unfolding calculate_translation_confidence_def calculate_usage_confidence_def Let_def
  by (simp add: example_translation_def)

subsection \<open>Language detection on a text without any scored feature\<close>

lemma text_x:
  "str ''x'' \<noteq> [] \<and> strip (str ''x'') \<noteq> [] \<and> strip (lower (str ''x'')) = [120]"
  by (simp add: strip_def lower_def str_def lower_cp_def isspace_def)

lemma split_x: "split [120] = [[120]]"
  by (simp add: split_def isspace_def)

lemma shuar_score_x: "calculate_shuar_score (analyze_features [120]) = 0"
  unfolding calculate_shuar_score_def analyze_features_def Let_def Features.simps split_x
    count_feature_ratio_def count_digraph_ratio_def analyze_vowel_system_shuar_def
    count_common_words_def count_suffix_patterns_def
  by (simp add: str_def SHUAR_VOWELS_def SHUAR_NASAL_VOWELS_def SHUAR_LARYNGEALIZED_VOWELS_def
      SHUAR_DIGRAPHS_def SHUAR_COMMON_WORDS_def SHUAR_SUFFIXES_def count_sub_def startswith_def
      endswith_def replace_def)

lemma spanish_score_x: "calculate_spanish_score (analyze_features [120]) = 0"
  unfolding calculate_spanish_score_def analyze_features_def Let_def Features.simps split_x
    count_feature_ratio_def count_digraph_ratio_def analyze_vowel_system_spanish_def
    count_common_words_def count_suffix_patterns_def
  by (simp add: str_def SPANISH_VOWELS_def SHUAR_NASAL_VOWELS_def SHUAR_LARYNGEALIZED_VOWELS_def
      SPANISH_DIGRAPHS_def SPANISH_COMMON_WORDS_def SPANISH_SUFFIXES_def count_sub_def startswith_def
      endswith_def replace_def)

lemma count_feature_ratio_nonneg: "0 \<le> count_feature_ratio t S n"
  by (simp add: count_feature_ratio_def)

lemma count_digraph_ratio_nonneg: "0 \<le> count_digraph_ratio t ds n"
  by (simp add: count_digraph_ratio_def)

lemma count_common_words_nonneg: "0 \<le> count_common_words ws S"
  by (simp add: count_common_words_def)

lemma count_suffix_patterns_nonneg: "0 \<le> count_suffix_patterns ws S"
  by (simp add: count_suffix_patterns_def)

lemma vowel_system_shuar_nonneg: "0 \<le> analyze_vowel_system_shuar t"
  unfolding analyze_vowel_system_shuar_def Let_def by simp

lemma shuar_score_nonneg: "0 \<le> calculate_shuar_score (analyze_features t)"
proof -
  have "0 \<le> count_feature_ratio t SHUAR_NASAL_VOWELS n * 3
          + count_feature_ratio t SHUAR_LARYNGEALIZED_VOWELS n * 4
          + analyze_vowel_system_shuar t * 2
          + count_common_words ws SHUAR_COMMON_WORDS * 3
          + count_suffix_patterns ws SHUAR_SUFFIXES * 2
          + count_digraph_ratio t SHUAR_DIGRAPHS k * 1.5" for n ws k
    using count_feature_ratio_nonneg [of t SHUAR_NASAL_VOWELS n]
      count_feature_ratio_nonneg [of t SHUAR_LARYNGEALIZED_VOWELS n]
      vowel_system_shuar_nonneg [of t]
      count_common_words_nonneg [of ws SHUAR_COMMON_WORDS]
      count_suffix_patterns_nonneg [of ws SHUAR_SUFFIXES]
      count_digraph_ratio_nonneg [of t SHUAR_DIGRAPHS k]
    by simp
  then show ?thesis
    unfolding calculate_shuar_score_def analyze_features_def Let_def Features.simps
    by (simp add: add_nonneg_nonneg)
qed

lemma spanish_score_nonneg: "0 \<le> calculate_spanish_score f"
  unfolding calculate_spanish_score_def Let_def by simp

text \<open>
  Both scores are never negative. On a text that is not blank, detection raises
  ZeroDivisionError exactly when both scores are 0; otherwise it returns a result whose
  confidence lies between 0.5 and 1.
\<close>

lemma detect_language_confidence_range:
  assumes "strip t \<noteq> []"
  shows "(calculate_shuar_score (analyze_features (strip (lower t))) = 0 \<and>
          calculate_spanish_score (analyze_features (strip (lower t))) = 0
            \<longrightarrow> detect_language t = Inl ZeroDivisionError) \<and>
         (\<not> (calculate_shuar_score (analyze_features (strip (lower t))) = 0 \<and>
             calculate_spanish_score (analyze_features (strip (lower t))) = 0)
            \<longrightarrow> (\<exists>r. detect_language t = Inr r \<and> 1 / 2 \<le> confidence r \<and> confidence r \<le> 1))"
proof -
  define s where "s = calculate_shuar_score (analyze_features (strip (lower t)))"
  define p where "p = calculate_spanish_score (analyze_features (strip (lower t)))"
  have s: "0 \<le> s" unfolding s_def by (rule shuar_score_nonneg)
  have p: "0 \<le> p" unfolding p_def by (rule spanish_score_nonneg)
  from assms have ne: "t \<noteq> []" by (auto simp add: strip_Nil)
  have zero: "detect_language t = Inl ZeroDivisionError" if "s = 0" "p = 0"
    using that ne assms unfolding detect_language_def Let_def s_def p_def
    by (simp add: py_div_def)
  have pos: "\<exists>r. detect_language t = Inr r \<and> 1 / 2 \<le> confidence r \<and> confidence r \<le> 1"
    if "\<not> (s = 0 \<and> p = 0)"
  proof (cases "s > p")
    case True
    with s p have "s + p \<noteq> 0" "1 / 2 \<le> s / (s + p)" "s / (s + p) \<le> 1"
      by (simp_all add: field_simps)
    with True ne assms show ?thesis
      unfolding detect_language_def Let_def s_def [symmetric] p_def [symmetric]
      by (simp add: py_div_def)
  next
    case False
    with s that have "0 < p" "s \<le> p" by auto
    with s have "s + p \<noteq> 0" "1 / 2 \<le> p / (s + p)" "p / (s + p) \<le> 1"
      by (simp_all add: field_simps)
    with False ne assms show ?thesis
      unfolding detect_language_def Let_def s_def [symmetric] p_def [symmetric]
      by (simp add: py_div_def)
  qed
  from zero pos show ?thesis unfolding s_def p_def by blast
qed

text \<open>
  Claim C2 (the code diverges from it). The text \<^verbatim>\<open>x\<close> is not empty after trimming. It
  has no vowel, no digraph, no common word, no suffix and a word length of 1, so the Shuar
  score and the Spanish score are both 0; the Shuar score is not greater, and the confidence
  \<^verbatim>\<open>spanish_score / (shuar_score + spanish_score)\<close> divides by zero: the call raises
  ZeroDivisionError instead of returning a result.
\<close>

theorem detect_language_zero_scores:
  "strip (str ''x'') \<noteq> [] \<and>
   calculate_shuar_score (analyze_features (strip (lower (str ''x'')))) = 0 \<and>
   calculate_spanish_score (analyze_features (strip (lower (str ''x'')))) = 0 \<and>
   detect_language (str ''x'') = Inl ZeroDivisionError"
  unfolding detect_language_def Let_def
  by (simp add: text_x shuar_score_x spanish_score_x py_div_def)

subsection \<open>Overall quality and the community rating\<close>

text \<open>
  Claim C3, as amended. With confidence, expert approval, usage frequency, phonological
  accuracy and cultural appropriateness fixed, the overall quality score does not decrease
  when the community rating grows from r1 to r2, provided the two ratings are on the same side
  of the no-rating guard (both positive, or both at most 0) or the greater one is at least 3.
  A rating that is not positive is scored as the neutral 0.5, which is more than the score
  (r - 1) / 4 of a positive rating below 3.
\<close>

theorem overall_quality_monotone:
  assumes "calculate_overall_quality c r1 e u p k = Inr q1"
    and "calculate_overall_quality c r2 e u p k = Inr q2"
    and "r1 \<le> r2" and "0 < r1 \<or> r2 \<le> 0 \<or> 3 \<le> r2"
  shows "q1 \<le> q2"
proof -
  define n where "n r = (if r > 0 then (r - 1) / 4 else 0.5)" for r :: real
  have mono: "n r1 \<le> n r2"
    using assms(3,4) by (auto simp add: n_def)
  from assms(1) have pos: "\<not> u + 1 \<le> 0"
    unfolding calculate_overall_quality_def math_log_def Let_def
    by (auto split: if_splits)
  define rest where "rest = c * 0.25 + p * 0.15 + k * 0.15 + (if e then 0.2 else 0)
      + min 0.2 (ln (real_of_int (u + 1)) / 25)"
  have q: "calculate_overall_quality c r e u p k = Inr (min 1 (rest + n r * 0.3))" for r
    unfolding calculate_overall_quality_def math_log_def COMMUNITY_RATING_WEIGHT_def
      EXPERT_APPROVAL_WEIGHT_def PHONOLOGICAL_ACCURACY_WEIGHT_def
      CULTURAL_APPROPRIATENESS_WEIGHT_def Let_def n_def rest_def
    using pos by (simp add: algebra_simps)
  have "q1 = min 1 (rest + n r1 * 0.3)" "q2 = min 1 (rest + n r2 * 0.3)"
    using assms(1,2) by (simp_all add: q)
  then show ?thesis using mono by (simp add: min_def)
qed

text \<open>The amended claim at the ratings 2 and 4, everything else fixed.\<close>

theorem overall_quality_monotone_witness:
  "calculate_overall_quality 0.5 2 False 0 0.5 0.5 = Inr 0.35 \<and>
   calculate_overall_quality 0.5 4 False 0 0.5 0.5 = Inr 0.5 \<and> (0.35::real) \<le> 0.5"
proof -
  have a: "calculate_overall_quality 0.5 2 False 0 0.5 0.5 = Inr 0.35"
    unfolding calculate_overall_quality_def math_log_def COMMUNITY_RATING_WEIGHT_def
      EXPERT_APPROVAL_WEIGHT_def PHONOLOGICAL_ACCURACY_WEIGHT_def
      CULTURAL_APPROPRIATENESS_WEIGHT_def Let_def
    by simp
  have b: "calculate_overall_quality 0.5 4 False 0 0.5 0.5 = Inr 0.5"
    unfolding calculate_overall_quality_def math_log_def COMMUNITY_RATING_WEIGHT_def
      EXPERT_APPROVAL_WEIGHT_def PHONOLOGICAL_ACCURACY_WEIGHT_def
      CULTURAL_APPROPRIATENESS_WEIGHT_def Let_def
    by simp
  from overall_quality_monotone [OF a b] show ?thesis using a b by simp
qed

lemma metrics_unrated:
  "calculate_quality_metrics (rated_translation 3) [example_feedback None] None =
     Inr \<lparr>confidence_score = 73 / 170, community_rating = 0, expert_approval = False,
          usage_frequency = 0, feedback_count = 1, native_speaker_approval = False,
          phonological_accuracy = 1 / 2, cultural_appropriateness = 1 / 2,
          overall_quality_score = 73 / 680 + 3 / 10\<rparr>"
  unfolding calculate_quality_metrics_def calculate_translation_confidence_def
    calculate_usage_confidence_def calculate_rating_confidence_def
    calculate_feedback_confidence_def calculate_weighted_community_rating_def
    has_native_speaker_approval_def assess_cultural_appropriateness_def
    calculate_overall_quality_def math_log_def COMMUNITY_RATING_WEIGHT_def
    EXPERT_APPROVAL_WEIGHT_def PHONOLOGICAL_ACCURACY_WEIGHT_def
    CULTURAL_APPROPRIATENESS_WEIGHT_def Let_def
  by (simp add: rated_translation_def example_feedback_def feedback_weight_def)

lemma metrics_rated_one:
  "calculate_quality_metrics (rated_translation (21 / 5)) [example_feedback (Some 1)] None =
     Inr \<lparr>confidence_score = 73 / 170, community_rating = 1, expert_approval = False,
          usage_frequency = 0, feedback_count = 1, native_speaker_approval = False,
          phonological_accuracy = 1 / 2, cultural_appropriateness = 1 / 2,
          overall_quality_score = 73 / 680 + 3 / 20\<rparr>"
  unfolding calculate_quality_metrics_def calculate_translation_confidence_def
    calculate_usage_confidence_def calculate_rating_confidence_def
    calculate_feedback_confidence_def calculate_weighted_community_rating_def
    has_native_speaker_approval_def assess_cultural_appropriateness_def
    calculate_overall_quality_def math_log_def COMMUNITY_RATING_WEIGHT_def
    EXPERT_APPROVAL_WEIGHT_def PHONOLOGICAL_ACCURACY_WEIGHT_def
    CULTURAL_APPROPRIATENESS_WEIGHT_def Let_def
  by (simp add: rated_translation_def example_feedback_def feedback_weight_def)

text \<open>
  Claim C3 as stated fails: with everything else equal, the community rating 0 (no rated
  feedback) gives the overall score 0.425 and the greater rating 1 gives 0.275. Two calls of
  calculate_quality_metrics show it: a pending translation with average rating 3.0 over ten
  ratings and one feedback item without rating, and a pending translation with average rating
  4.2 over ten ratings and one visitor feedback of rating 1. Both have confidence 73/170, no
  expert approval, no usage, phonological accuracy 0.5 and cultural appropriateness 0.5; the
  community rating is 0 for the first and 1 for the second, and the overall score of the
  second is 0.15 lower.
\<close>

theorem overall_quality_monotone_counterexample:
  "calculate_overall_quality 0.5 0 False 0 0.5 0.5 = Inr 0.425 \<and>
   calculate_overall_quality 0.5 1 False 0 0.5 0.5 = Inr 0.275 \<and>
   (0::real) \<le> 1 \<and> \<not> (0.425::real) \<le> 0.275 \<and>
   calculate_quality_metrics (rated_translation 3) [example_feedback None] None =
     Inr \<lparr>confidence_score = 73 / 170, community_rating = 0, expert_approval = False,
          usage_frequency = 0, feedback_count = 1, native_speaker_approval = False,
          phonological_accuracy = 1 / 2, cultural_appropriateness = 1 / 2,
          overall_quality_score = 73 / 680 + 3 / 10\<rparr> \<and>
   calculate_quality_metrics (rated_translation (21 / 5)) [example_feedback (Some 1)] None =
     Inr \<lparr>confidence_score = 73 / 170, community_rating = 1, expert_approval = False,
          usage_frequency = 0, feedback_count = 1, native_speaker_approval = False,
          phonological_accuracy = 1 / 2, cultural_appropriateness = 1 / 2,
          overall_quality_score = 73 / 680 + 3 / 20\<rparr> \<and>
   \<not> (73 / 680 + 3 / 10 :: real) \<le> 73 / 680 + 3 / 20"
proof -
  have a: "calculate_overall_quality 0.5 0 False 0 0.5 0.5 = Inr 0.425 \<and>
           calculate_overall_quality 0.5 1 False 0 0.5 0.5 = Inr 0.275"
    unfolding calculate_overall_quality_def math_log_def COMMUNITY_RATING_WEIGHT_def
      EXPERT_APPROVAL_WEIGHT_def PHONOLOGICAL_ACCURACY_WEIGHT_def
      CULTURAL_APPROPRIATENESS_WEIGHT_def Let_def
    by simp
  have b: "(0::real) \<le> 1 \<and> \<not> (0.425::real) \<le> 0.275 \<and>
           \<not> (73 / 680 + 3 / 10 :: real) \<le> 73 / 680 + 3 / 20"
    by simp
  from a b metrics_unrated metrics_rated_one show ?thesis by blast
qed

subsection \<open>Transcribing a transcription\<close>

lemma digraph_cases:
  "[c, d] \<in> DIGRAPHS \<longleftrightarrow> [c, d] = str ''ch'' \<or> [c, d] = str ''sh'' \<or> [c, d] = str ''ts''"
  by (auto simp add: DIGRAPHS_def)

lemma ipa_get_ts: "ipa_get (str ''ts'') = str ''ts''"
  by (simp add: ipa_get_def IPA_MAPPINGS_def str_def)

lemma ipa_loop_fixed:
  assumes "\<forall>c \<in> set t. ipa_get [c] = [c]"
    and "\<not> contains t (str ''ch'')" and "\<not> contains t (str ''sh'')"
  shows "ipa_loop t = t"
  using assms
proof (induction t rule: ipa_loop.induct)
  case 1
  then show ?case by simp
next
  case (2 c)
  then show ?case by simp
next
  case (3 c d rest)
  show ?case
  proof (cases "[c, d] \<in> DIGRAPHS")
    case True
    from "3.prems"(2,3) have "[c, d] \<noteq> str ''ch''" "[c, d] \<noteq> str ''sh''"
      by (auto simp add: startswith_def str_def)
    with True have ts: "[c, d] = str ''ts''" by (simp add: digraph_cases)
    from "3.prems" have "ipa_loop rest = rest"
      by (intro "3.IH"(1) [OF True]) simp_all
    with True ts ipa_get_ts show ?thesis by simp
  next
    case False
    from "3.prems" have "ipa_loop (d # rest) = d # rest"
      by (intro "3.IH"(2) [OF False]) simp_all
    with False "3.prems"(1) show ?thesis by simp
  qed
qed

text \<open>
  Claim C4, as amended. Transcribing a transcription returns it unchanged whenever the
  transcription is in lower case and trimmed, none of its characters is rewritten by the symbol
  table (as j, y, r and the nasal and laryngealized vowels are) and it contains neither of the
  digraphs ch and sh. The symbol table is not idempotent on the other words: y is transcribed
  as j, and j as h.
\<close>

theorem ipa_transcription_idempotent_on_fixed:
  assumes "lower (generate_ipa_transcription w) = generate_ipa_transcription w"
    and "strip (generate_ipa_transcription w) = generate_ipa_transcription w"
    and "\<forall>c \<in> set (generate_ipa_transcription w). ipa_get [c] = [c]"
    and "\<not> contains (generate_ipa_transcription w) (str ''ch'')"
    and "\<not> contains (generate_ipa_transcription w) (str ''sh'')"
  shows "generate_ipa_transcription (generate_ipa_transcription w) = generate_ipa_transcription w"
proof -
  define t where "t = generate_ipa_transcription w"
  have "ipa_loop t = t"
    using assms(3,4,5) unfolding t_def [symmetric] by (rule ipa_loop_fixed)
  moreover have "strip (lower t) = t"
    using assms(1,2) unfolding t_def [symmetric] by simp
  ultimately have "generate_ipa_transcription t = t"
    by (cases "t = []") (simp_all add: generate_ipa_transcription_def)
  then show ?thesis by (simp add: t_def)
qed

text \<open>The amended claim at the word \<^verbatim>\<open>" Tsaja "\<close>, transcribed as \<^verbatim>\<open>tsaha\<close>.\<close>

theorem ipa_transcription_idempotent_on_fixed_witness:
  "generate_ipa_transcription (str '' Tsaja '') = str ''tsaha'' \<and>
   generate_ipa_transcription (generate_ipa_transcription (str '' Tsaja '')) = str ''tsaha''"
proof -
  have g: "generate_ipa_transcription (str '' Tsaja '') = [116, 115, 97, 104, 97]"
    by (simp add: generate_ipa_transcription_def str_def lower_def lower_cp_def strip_def
        isspace_def ipa_get_def IPA_MAPPINGS_def DIGRAPHS_def)
  have h: "lower [116, 115, 97, 104, 97] = [116, 115, 97, 104, 97]"
    "strip [116, 115, 97, 104, 97] = [116, 115, 97, 104, 97]"
    "\<forall>c \<in> set [116, 115, 97, 104, 97]. ipa_get [c] = [c]"
    "\<not> contains [116, 115, 97, 104, 97] (str ''ch'')"
    "\<not> contains [116, 115, 97, 104, 97] (str ''sh'')"
    by (simp_all add: lower_def lower_cp_def strip_def isspace_def ipa_get_def IPA_MAPPINGS_def
        str_def startswith_def)
  from ipa_transcription_idempotent_on_fixed [of "str '' Tsaja ''"] h
  have "generate_ipa_transcription (generate_ipa_transcription (str '' Tsaja ''))
          = generate_ipa_transcription (str '' Tsaja '')"
    unfolding g by blast
  with g show ?thesis by (simp add: str_def)
qed

text \<open>
  Claim C4 as stated fails at the word \<^verbatim>\<open>y\<close>: its transcription is \<^verbatim>\<open>j\<close>, and the
  transcription of \<^verbatim>\<open>j\<close> is \<^verbatim>\<open>h\<close>.
\<close>

theorem ipa_transcription_idempotent_counterexample:
  "generate_ipa_transcription (str ''y'') = str ''j'' \<and>
   generate_ipa_transcription (generate_ipa_transcription (str ''y'')) = str ''h'' \<and>
   generate_ipa_transcription (generate_ipa_transcription (str ''y''))
     \<noteq> generate_ipa_transcription (str ''y'')"
  by (simp add: generate_ipa_transcription_def str_def lower_def lower_cp_def strip_def isspace_def
      ipa_get_def IPA_MAPPINGS_def)

subsection \<open>Confidence tiers\<close>

lemma text_ch:
  "str ''ch'' \<noteq> [] \<and> strip (str ''ch'') \<noteq> [] \<and> strip (lower (str ''ch'')) = [99, 104]"
  by (simp add: strip_def lower_def str_def lower_cp_def isspace_def)

lemma split_ch: "split [99, 104] = [[99, 104]]"
  by (simp add: split_def isspace_def)

lemma shuar_score_ch: "calculate_shuar_score (analyze_features [99, 104]) = 3 / 2"
  unfolding calculate_shuar_score_def analyze_features_def Let_def Features.simps split_ch
    count_feature_ratio_def count_digraph_ratio_def analyze_vowel_system_shuar_def
    count_common_words_def count_suffix_patterns_def
  by (simp add: str_def SHUAR_VOWELS_def SHUAR_NASAL_VOWELS_def SHUAR_LARYNGEALIZED_VOWELS_def
      SHUAR_DIGRAPHS_def SHUAR_COMMON_WORDS_def SHUAR_SUFFIXES_def count_sub_def startswith_def
      endswith_def replace_def)

lemma spanish_score_ch: "calculate_spanish_score (analyze_features [99, 104]) = 3 / 2"
  unfolding calculate_spanish_score_def analyze_features_def Let_def Features.simps split_ch
    count_feature_ratio_def count_digraph_ratio_def analyze_vowel_system_spanish_def
    count_common_words_def count_suffix_patterns_def
  by (simp add: str_def SPANISH_VOWELS_def SHUAR_NASAL_VOWELS_def SHUAR_LARYNGEALIZED_VOWELS_def
      SPANISH_DIGRAPHS_def SPANISH_COMMON_WORDS_def SPANISH_SUFFIXES_def count_sub_def startswith_def
      endswith_def replace_def)

text \<open>
  Claim C5 (the code diverges from it). A confidence of exactly 0.8 is in the tier MEDIUM,
  as claimed, but a confidence of exactly 0.5 is in the tier LOW, not MEDIUM: the second
  comparison is the strict \<^verbatim>\<open>confidence > 0.5\<close>. The text \<^verbatim>\<open>ch\<close> reaches this case:
  the digraph counts for both languages, both scores are 1.5, the detected language is Spanish
  with confidence 1.5 / 3.0 = 0.5, and the result carries the tier LOW.
\<close>

theorem confidence_level_at_boundary:
  "get_confidence_level 0.8 = MEDIUM \<and>
   get_confidence_level 0.5 = LOW \<and>
   map_sum id (\<lambda>r. (detected_language r, confidence r, detection_confidence_level r))
     (detect_language (str ''ch'')) = Inr (SPANISH, 0.5, LOW)"
  unfolding detect_language_def Let_def
  by (simp add: text_ch shuar_score_ch spanish_score_ch py_div_def get_confidence_level_def)

subsection \<open>SimilarityScore invariant\<close>

text \<open>
  Claim C6. Every successfully constructed SimilarityScore has all four components in
  [0, 1] and its overall score within 0.1 of 0.4 * phonological + 0.3 * morphological +
  0.3 * semantic; a construction that violates the range or the consistency condition raises
  ValidationError.
\<close>

theorem SimilarityScore_invariant:
  "(SimilarityScore_init p m s ov = Inr sc \<longrightarrow>
      sc = \<lparr>phonological_similarity = p, morphological_similarity = m,
             semantic_similarity = s, overall_similarity = ov\<rparr> \<and>
      0 \<le> p \<and> p \<le> 1 \<and> 0 \<le> m \<and> m \<le> 1 \<and> 0 \<le> s \<and> s \<le> 1 \<and> 0 \<le> ov \<and> ov \<le> 1 \<and>
      \<bar>ov - (0.4 * p + 0.3 * m + 0.3 * s)\<bar> \<le> 0.1) \<and>
   (\<not> (0 \<le> p \<and> p \<le> 1 \<and> 0 \<le> m \<and> m \<le> 1 \<and> 0 \<le> s \<and> s \<le> 1 \<and> 0 \<le> ov \<and> ov \<le> 1) \<or>
    \<not> \<bar>ov - (0.4 * p + 0.3 * m + 0.3 * s)\<bar> \<le> 0.1
      \<longrightarrow> SimilarityScore_init p m s ov = Inl ValidationError)"
  unfolding SimilarityScore_init_def Let_def
  by (auto simp add: algebra_simps split: if_splits)

text \<open>
  The claim at a consistent score, at an inconsistent one (overall 0.5 for components that
  are all 1) and at one out of range.
\<close>

theorem SimilarityScore_invariant_witness:
  "SimilarityScore_init 1 (1 / 2) (1 / 2) (7 / 10) =
     Inr \<lparr>phonological_similarity = 1, morphological_similarity = 1 / 2,
          semantic_similarity = 1 / 2, overall_similarity = 7 / 10\<rparr> \<and>
   \<bar>7 / 10 - (0.4 * 1 + 0.3 * (1 / 2) + 0.3 * (1 / 2))\<bar> \<le> (0.1 :: real) \<and>
   SimilarityScore_init 1 1 1 (1 / 2) = Inl ValidationError \<and>
   SimilarityScore_init 2 (1 / 2) (1 / 2) 1 = Inl ValidationError"
proof -
  have a: "SimilarityScore_init 1 (1 / 2) (1 / 2) (7 / 10) =
     Inr \<lparr>phonological_similarity = 1, morphological_similarity = 1 / 2,
          semantic_similarity = 1 / 2, overall_similarity = 7 / 10\<rparr>"
    unfolding SimilarityScore_init_def Let_def by simp
  have b: "SimilarityScore_init 1 1 1 (1 / 2) = Inl ValidationError"
    using SimilarityScore_invariant [of 1 1 1 "1 / 2"] by simp
  have c: "SimilarityScore_init 2 (1 / 2) (1 / 2) 1 = Inl ValidationError"
    using SimilarityScore_invariant [of 2 "1 / 2" "1 / 2" 1] by simp
  from SimilarityScore_invariant [of 1 "1 / 2" "1 / 2" "7 / 10"] a
  have "\<bar>7 / 10 - (0.4 * 1 + 0.3 * (1 / 2) + 0.3 * (1 / 2))\<bar> \<le> (0.1 :: real)"
    by blast
  with a b c show ?thesis by blast
qed

subsection \<open>Similarity search\<close>

lemma similar_words_loop_entries:
  assumes "similar_words_loop ds t tf cr acc cs = Inr res"
    and "\<forall>sw \<in> set acc. P sw"
    and "\<And>c sim e. c \<in> set cs \<Longrightarrow> lower (shuar_text c) \<noteq> t \<Longrightarrow>
           overall_similarity sim \<ge> min_similarity_threshold cr \<Longrightarrow>
           P \<lparr>word = c, similarity = sim, explanation = e\<rparr>"
  shows "\<forall>sw \<in> set res. P sw"
  using assms
proof (induction cs arbitrary: acc)
  case Nil
  then show ?case by simp
next
  case (Cons c rest)
  have step: "\<And>c' sim e. c' \<in> set rest \<Longrightarrow> lower (shuar_text c') \<noteq> t \<Longrightarrow>
           overall_similarity sim \<ge> min_similarity_threshold cr \<Longrightarrow>
           P \<lparr>word = c', similarity = sim, explanation = e\<rparr>"
    using Cons.prems(3) by simp
  show ?case
  proof (cases "lower (shuar_text c) = t")
    case True
    with Cons.prems(1) have "similar_words_loop ds t tf cr acc rest = Inr res" by simp
    from Cons.IH [OF this Cons.prems(2) step] show ?thesis .
  next
    case False
    show ?thesis
    proof (cases "calculate_comprehensive_similarity ds t tf c cr")
      case (Inl e)
      with False Cons.prems(1) show ?thesis by simp
    next
      case (Inr sim)
      show ?thesis
      proof (cases "overall_similarity sim \<ge> min_similarity_threshold cr")
        case True
        let ?sw = "\<lparr>word = c, similarity = sim,
                    explanation = Some (generate_similarity_explanation t (shuar_text c) sim)\<rparr>"
        from True False Inr Cons.prems(1)
        have r: "similar_words_loop ds t tf cr (acc @ [?sw]) rest = Inr res" by simp
        have "P ?sw" using Cons.prems(3) [of c sim] False True by simp
        with Cons.prems(2) have "\<forall>sw \<in> set (acc @ [?sw]). P sw" by simp
        from Cons.IH [OF r this step] show ?thesis .
      next
        case below: False
        with False Inr Cons.prems(1)
        have "similar_words_loop ds t tf cr acc rest = Inr res" by simp
        from Cons.IH [OF this Cons.prems(2) step] show ?thesis .
      qed
    qed
  qed
qed

lemma sort_descending_sorted:
  "sorted_wrt (\<lambda>a b. overall_similarity (similarity a) \<ge> overall_similarity (similarity b))
     (sort_descending xs)"
proof -
  have "sorted (map (\<lambda>sw. - overall_similarity (similarity sw)) (sort_descending xs))"
    unfolding sort_descending_def by (rule sorted_sort_key)
  then show ?thesis by (simp add: sorted_map)
qed

lemma slice_to_take: "\<exists>k. slice_to xs n = take k xs"
  by (auto simp add: slice_to_def)

lemma slice_to_length: "0 \<le> n \<Longrightarrow> int (length (slice_to xs n)) \<le> n"
  by (simp add: slice_to_def)

text \<open>
  What holds of every list that find_similar_words returns: each entry is one of the
  candidates, its lower-cased text differs from the lower-cased and trimmed target, and its
  overall similarity is at least the threshold of the criteria; the list is sorted in
  descending order of overall similarity; and, for a max_results that is not negative, its
  length is at most max_results.
\<close>

lemma find_similar_words_properties:
  assumes "find_similar_words ds target cands crit = Inr res"
  shows "(\<forall>sw \<in> set res.
            word sw \<in> set cands \<and>
            lower (shuar_text (word sw)) \<noteq> strip (lower target) \<and>
            overall_similarity (similarity sw) \<ge> min_similarity_threshold (criteria_of crit)) \<and>
         sorted_wrt (\<lambda>a b. overall_similarity (similarity a) \<ge> overall_similarity (similarity b)) res \<and>
         (0 \<le> max_results (criteria_of crit) \<longrightarrow> int (length res) \<le> max_results (criteria_of crit))"
proof (cases "cands = []")
  case True
  with assms have "res = []"
    by (simp add: find_similar_words_def split: if_splits)
  then show ?thesis by simp
next
  case False
  define t where "t = strip (lower target)"
  define cr where "cr = criteria_of crit"
  from assms False obtain tf sws where
    loop: "similar_words_loop ds t tf cr [] cands = Inr sws"
    and res: "res = slice_to (sort_descending sws) (max_results cr)"
    unfolding find_similar_words_def Let_def t_def cr_def
    by (cases "analyze_word ds (strip (lower target))";
        cases "similar_words_loop ds (strip (lower target))
                 (projr (analyze_word ds (strip (lower target)))) (criteria_of crit) [] cands")
       (auto split: if_splits)
  let ?P = "\<lambda>sw. word sw \<in> set cands \<and> lower (shuar_text (word sw)) \<noteq> t \<and>
                 overall_similarity (similarity sw) \<ge> min_similarity_threshold cr"
  have "\<forall>sw \<in> set sws. ?P sw"
    by (rule similar_words_loop_entries [OF loop]) simp_all
  moreover obtain k where k: "res = take k (sort_descending sws)"
    using slice_to_take res by blast
  then have "set res \<subseteq> set sws"
    by (auto simp add: sort_descending_def dest: in_set_takeD)
  ultimately have entries: "\<forall>sw \<in> set res. ?P sw" by blast
  have sorted: "sorted_wrt (\<lambda>a b. overall_similarity (similarity a) \<ge> overall_similarity (similarity b)) res"
    unfolding k by (rule sorted_wrt_take) (rule sort_descending_sorted)
  have len: "0 \<le> max_results cr \<longrightarrow> int (length res) \<le> max_results cr"
    unfolding res by (simp add: slice_to_length)
  from entries sorted len show ?thesis unfolding t_def cr_def by blast
qed

text \<open>
  Two words that are not blank and have the same lower-cased, trimmed form are analyzed and
  transcribed alike, so their phonological similarity is 1.
\<close>

lemma similarity_same_normal_form:
  assumes "strip w \<noteq> []" and "strip w' \<noteq> []" and "strip (lower w) = strip (lower w')"
  shows "calculate_phonological_similarity ds w w' = Inr 1"
proof -
  from assms(1,2) have ne: "w \<noteq> []" "w' \<noteq> []" by (auto simp add: strip_Nil)
  have aw: "analyze_word ds w' = analyze_word ds w"
    unfolding analyze_word_def Let_def using assms ne by simp
  have ipa: "generate_ipa_transcription w' = generate_ipa_transcription w"
    using ne assms(3) by (simp add: generate_ipa_transcription_def)
  from analyze_word_returns [OF assms(1)] obtain f where f: "analyze_word ds w = Inr f" by blast
  show ?thesis
    unfolding calculate_phonological_similarity_def Let_def aw f
    by (simp add: ne ipa vocal_type_similarity_refl calculate_syllable_similarity_def
        calculate_pattern_similarity_def calculate_sound_similarity_def levenshtein_similarity_def)
qed

lemma text_nua_padded:
  "str ''nua '' = [110, 117, 97, 32] \<and> strip [110, 117, 97, 32] = [110, 117, 97] \<and>
   lower [110, 117, 97, 32] = [110, 117, 97, 32] \<and>
   strip (lower [110, 117, 97, 32]) = [110, 117, 97] \<and>
   strip [110, 117, 97] = [110, 117, 97] \<and>
   strip (lower [110, 117, 97]) = [110, 117, 97]"
  by (simp add: str_def strip_def lower_def lower_cp_def isspace_def)

lemma comprehensive_nua_padded:
  "calculate_comprehensive_similarity ds [110, 117, 97] tf (example_word [110, 117, 97, 32] None) cr =
   Inr \<lparr>phonological_similarity = 1, morphological_similarity = 1 / 2,
        semantic_similarity = 1 / 2, overall_similarity = 7 / 10\<rparr>"
proof -
  have "calculate_phonological_similarity ds [110, 117, 97] [110, 117, 97, 32] = Inr 1"
    by (rule similarity_same_normal_form) (simp_all add: text_nua_padded)
  then show ?thesis
    unfolding calculate_comprehensive_similarity_def Let_def
    by (simp add: example_word_def SimilarityScore_create_def SimilarityScore_init_def)
qed

lemma explanation_nua_padded:
  "generate_similarity_explanation [110, 117, 97] [110, 117, 97, 32]
     \<lparr>phonological_similarity = 1, morphological_similarity = 1 / 2,
        semantic_similarity = 1 / 2, overall_similarity = 7 / 10\<rparr> =
   str ''High similarity to '' @ [39, 110, 117, 97, 39] @ str '': similar sound patterns''"
  unfolding generate_similarity_explanation_def Let_def get_similarity_level_def
  by (simp add: is_high_similarity_def is_moderate_similarity_def title_def str_def)

text \<open>
  Claim C7 (the code diverges from it). The loop skips a candidate when its lower-cased
  text equals the target after the target has been lower-cased and trimmed; the text of the
  candidate is lower-cased but not trimmed. For the target \<^verbatim>\<open>"nua "\<close> and a candidate whose
  text is \<^verbatim>\<open>"nua "\<close> as well, the normalized target is \<^verbatim>\<open>"nua"\<close>, the comparison
  fails, and the candidate, whose lower-cased text equals the target, is returned with
  phonological similarity 1 and overall similarity 0.7.
\<close>

theorem find_similar_words_keeps_padded_match:
  "strip (str ''nua '') \<noteq> [] \<and>
   lower (shuar_text (example_word (str ''nua '') None)) = str ''nua '' \<and>
   find_similar_words DIGRAPHS_order (str ''nua '') [example_word (str ''nua '') None] None =
     Inr [\<lparr>word = example_word (str ''nua '') None,
           similarity = \<lparr>phonological_similarity = 1, morphological_similarity = 1 / 2,
                         semantic_similarity = 1 / 2, overall_similarity = 7 / 10\<rparr>,
           explanation = Some (str ''High similarity to '' @ [39, 110, 117, 97, 39] @
                               str '': similar sound patterns'')\<rparr>]"
proof -
  have "strip [110, 117, 97] \<noteq> []" by (simp add: text_nua_padded)
  from analyze_word_returns [OF this] obtain tf where
    tf: "analyze_word DIGRAPHS_order [110, 117, 97] = Inr tf" by blast
  have r: "find_similar_words DIGRAPHS_order [110, 117, 97, 32]
             [example_word [110, 117, 97, 32] None] None =
     Inr [\<lparr>word = example_word [110, 117, 97, 32] None,
           similarity = \<lparr>phonological_similarity = 1, morphological_similarity = 1 / 2,
                         semantic_similarity = 1 / 2, overall_similarity = 7 / 10\<rparr>,
           explanation = Some (str ''High similarity to '' @ [39, 110, 117, 97, 39] @
                               str '': similar sound patterns'')\<rparr>]"
    unfolding find_similar_words_def Let_def
    by (simp add: text_nua_padded tf comprehensive_nua_padded explanation_nua_padded
        example_word_text criteria_of_def default_SearchCriteria_def sort_descending_def
        slice_to_def)
  then show ?thesis
    by (simp add: text_nua_padded example_word_text)
qed

subsection \<open>Phonological similarity of a word with itself\<close>

text \<open>
  Claim C8, as amended. For every word that is not empty after trimming, and every
  iteration order of the digraph set, the phonological similarity of the word with itself
  is 1.0. (The empty word has similarity 0.0 with itself, and a word of whitespace only
  raises ValidationError.)
\<close>

theorem phonological_similarity_refl:
  assumes "strip w \<noteq> []"
  shows "calculate_phonological_similarity ds w w = Inr 1"
proof -
  from assms have ne: "w \<noteq> []" by (auto simp add: strip_Nil)
  from analyze_word_returns [OF assms] obtain f where f: "analyze_word ds w = Inr f" by blast
  show ?thesis
    unfolding calculate_phonological_similarity_def Let_def f
    by (simp add: ne vocal_type_similarity_refl calculate_syllable_similarity_def
        calculate_pattern_similarity_def calculate_sound_similarity_def levenshtein_similarity_def)
qed

text \<open>The amended claim at the word \<^verbatim>\<open>nua\<close>.\<close>

theorem phonological_similarity_refl_witness:
  "strip (str ''nua'') \<noteq> [] \<and>
   calculate_phonological_similarity DIGRAPHS_order (str ''nua'') (str ''nua'') = Inr 1"
proof -
  have h: "strip (str ''nua'') \<noteq> []"
    by (simp add: strip_def str_def isspace_def)
  from phonological_similarity_refl [OF h] h show ?thesis by simp
qed

text \<open>
  Claim C8 as stated fails at the empty word, whose similarity with itself is 0.0, and at
  a blank word, for which the call raises ValidationError.
\<close>

theorem phonological_similarity_refl_counterexample:
  "calculate_phonological_similarity DIGRAPHS_order [] [] = Inr 0 \<and>
   calculate_phonological_similarity DIGRAPHS_order [] [] \<noteq> Inr 1 \<and>
   calculate_phonological_similarity DIGRAPHS_order (str '' '') (str '' '') = Inl ValidationError"
  by (simp add: calculate_phonological_similarity_def analyze_word_def str_def strip_def isspace_def)

subsection \<open>Minimal pairs\<close>

lemma differences_le_info:
  assumes "differences_le (count_phonological_differences w1 w2) m"
  shows "phonological_info w1 \<noteq> None \<and> phonological_info w2 \<noteq> None"
proof (cases "phonological_info w1")
  case None
  with assms show ?thesis by (simp add: count_phonological_differences_def)
next
  case (Some i1)
  with assms show ?thesis
    by (cases "phonological_info w2") (simp_all add: count_phonological_differences_def)
qed

text \<open>
  Claim C9. For every word list and every bound max_differences, each pair returned by
  find_minimal_pairs consists of two words that both have phonological info: a pair with a
  word lacking it counts as infinitely different and is never returned.
\<close>

theorem minimal_pairs_have_info:
  assumes "(w1, w2) \<in> set (find_minimal_pairs ws m)"
  shows "phonological_info w1 \<noteq> None \<and> phonological_info w2 \<noteq> None"
  using assms
proof (induction ws)
  case Nil
  then show ?case by simp
next
  case (Cons w rest)
  from Cons.prems consider
    (head) "w1 = w" "w2 \<in> set rest" "differences_le (count_phonological_differences w w2) m"
    | (tail) "(w1, w2) \<in> set (find_minimal_pairs rest m)"
    by auto
  then show ?case
  proof cases
    case head
    then show ?thesis using differences_le_info by blast
  next
    case tail
    then show ?thesis by (rule Cons.IH)
  qed
qed

lemma differences_without_info:
  "count_phonological_differences (example_word t None) w = Infinite"
  "count_phonological_differences w (example_word t None) = Infinite"
  by (simp_all add: count_phonological_differences_def example_word_info split: option.splits)

lemma differences_nua_nui:
  "count_phonological_differences (example_word (str ''nua'') (Some (example_info (str ''nua''))))
     (example_word (str ''nui'') (Some (example_info (str ''nui'')))) = Differences 1"
  unfolding count_phonological_differences_def Let_def
  by (simp add: example_word_info example_info_def str_def upt_rec)

text \<open>
  The claim on four words: \<^verbatim>\<open>nua\<close> and \<^verbatim>\<open>nui\<close> without phonological info, and the same
  two texts with it. With max_differences = 1 the only pair returned is the pair of the two
  words that have phonological info; the pair of the two words lacking it, whose texts differ
  in one letter, is not returned.
\<close>

theorem minimal_pairs_have_info_witness:
  "find_minimal_pairs
     [example_word (str ''nua'') None, example_word (str ''nui'') None,
      example_word (str ''nua'') (Some (example_info (str ''nua''))),
      example_word (str ''nui'') (Some (example_info (str ''nui'')))] 1
   = [(example_word (str ''nua'') (Some (example_info (str ''nua''))),
       example_word (str ''nui'') (Some (example_info (str ''nui''))))] \<and>
   phonological_info (example_word (str ''nua'') (Some (example_info (str ''nua'')))) \<noteq> None \<and>
   phonological_info (example_word (str ''nui'') (Some (example_info (str ''nui'')))) \<noteq> None"
proof -
  let ?ws = "[example_word (str ''nua'') None, example_word (str ''nui'') None,
      example_word (str ''nua'') (Some (example_info (str ''nua''))),
      example_word (str ''nui'') (Some (example_info (str ''nui'')))]"
  have r: "find_minimal_pairs ?ws 1
     = [(example_word (str ''nua'') (Some (example_info (str ''nua''))),
         example_word (str ''nui'') (Some (example_info (str ''nui''))))]"
    by (simp add: differences_without_info differences_nua_nui)
  then have "(example_word (str ''nua'') (Some (example_info (str ''nua''))),
         example_word (str ''nui'') (Some (example_info (str ''nui''))))
       \<in> set (find_minimal_pairs ?ws 1)" by simp
  from minimal_pairs_have_info [OF this] r show ?thesis by simp
qed

subsection \<open>Rhyming words and the empty target\<close>

lemma rhyming_words_loop_blank:
  assumes "\<exists>c \<in> set cs. shuar_text c = [] \<or> strip (shuar_text c) = []"
  shows "rhyming_words_loop ds t tf m acc cs = Inl ValidationError"
  using assms
proof (induction cs arbitrary: acc)
  case Nil
  then show ?case by simp
next
  case (Cons c rest)
  show ?case
  proof (cases "analyze_word ds (shuar_text c)")
    case (Inl e)
    then show ?thesis using analyze_word_error [OF Inl] by simp
  next
    case (Inr cf)
    then have "\<not> (shuar_text c = [] \<or> strip (shuar_text c) = [])"
      using analyze_word_blank [of "shuar_text c" ds] by auto
    with Cons.prems have "\<exists>c \<in> set rest. shuar_text c = [] \<or> strip (shuar_text c) = []"
      by auto
    then have "rhyming_words_loop ds t tf m acc' rest = Inl ValidationError" for acc'
      by (rule Cons.IH)
    with Inr show ?thesis by (simp add: Let_def)
  qed
qed

text \<open>
  Claim C10. For the empty target, find_rhyming_words returns the empty list without an
  error, whereas analyze_word and find_similar_words raise ValidationError on the empty word.
  For a target that is not empty, find_rhyming_words raises ValidationError whenever the text
  of some candidate is empty or blank, because every candidate is analyzed.
\<close>

theorem find_rhyming_words_empty_target:
  "find_rhyming_words ds [] cs m = Inr [] \<and>
   analyze_word ds [] = Inl ValidationError \<and>
   find_similar_words ds [] cs crit = Inl ValidationError \<and>
   (target \<noteq> [] \<and> (\<exists>c \<in> set cs. shuar_text c = [] \<or> strip (shuar_text c) = [])
      \<longrightarrow> find_rhyming_words ds target cs m = Inl ValidationError)"
proof -
  have a: "find_rhyming_words ds [] cs m = Inr []"
    by (simp add: find_rhyming_words_def)
  have b: "analyze_word ds [] = Inl ValidationError"
    by (simp add: analyze_word_def)
  have c: "find_similar_words ds [] cs crit = Inl ValidationError"
    by (simp add: find_similar_words_def)
  have d: "find_rhyming_words ds target cs m = Inl ValidationError"
    if "target \<noteq> []" and "\<exists>c \<in> set cs. shuar_text c = [] \<or> strip (shuar_text c) = []"
  proof (cases "analyze_word ds (strip (lower target))")
    case (Inl e)
    with that(1) analyze_word_error [OF Inl] show ?thesis
      by (simp add: find_rhyming_words_def Let_def)
  next
    case (Inr tf)
    with that(1) rhyming_words_loop_blank [OF that(2)] show ?thesis
      by (simp add: find_rhyming_words_def Let_def)
  qed
  from a b c d show ?thesis by blast
qed

text \<open>
  The claim at the empty target, and at the target \<^verbatim>\<open>nua\<close> with the candidates
  \<^verbatim>\<open>nui\<close> and a blank word.
\<close>

theorem find_rhyming_words_empty_target_witness:
  "find_rhyming_words DIGRAPHS_order [] [example_word (str '' '') None] 1 = Inr [] \<and>
   str ''nua'' \<noteq> [] \<and>
   strip (shuar_text (example_word (str '' '') None)) = [] \<and>
   find_rhyming_words DIGRAPHS_order (str ''nua'')
     [example_word (str ''nui'') None, example_word (str '' '') None] 1 = Inl ValidationError"
proof -
  have h: "str ''nua'' \<noteq> [] \<and> strip (shuar_text (example_word (str '' '') None)) = []"
    by (simp add: example_word_def str_def strip_def isspace_def)
  then have e: "\<exists>c \<in> set [example_word (str ''nui'') None, example_word (str '' '') None].
         shuar_text c = [] \<or> strip (shuar_text c) = []"
    by simp
  from find_rhyming_words_empty_target
         [of DIGRAPHS_order "[example_word (str '' '') None]" 1 None "str ''nua''"]
       find_rhyming_words_empty_target
         [of DIGRAPHS_order "[example_word (str ''nui'') None, example_word (str '' '') None]" 1
             None "str ''nua''"] h e
  show ?thesis by blast
qed

end
